theory Spec2Isabelle
  imports Main "HOL-Library.Word" "HOL-Library.AList"
begin

section \<open>JavaScript strings\<close>

text \<open>
  A JavaScript string is a sequence of UTF-16 code units. The regular expressions of
  \<^verbatim>\<open>generate-team-data.js\<close> carry no \<^verbatim>\<open>u\<close> flag, so they work on code units too.
\<close>

type_synonym jschar = "16 word"
type_synonym jsstring = "jschar list"

definition js :: "string \<Rightarrow> jsstring" where
  \<comment> \<open>an ASCII literal of the source as a list of code units\<close>
  "js s = map (\<lambda>c. of_nat (of_char c)) s"

definition is_ws :: "jschar \<Rightarrow> bool" where
  \<comment> \<open>ECMAScript WhiteSpace and LineTerminator: what \<^verbatim>\<open>\s\<close> matches and \<^verbatim>\<open>trim()\<close> strips\<close>
  "is_ws c \<longleftrightarrow>
     (0x09 \<le> c \<and> c \<le> 0x0D) \<or> c = 0x20 \<or> c = 0xA0 \<or> c = 0x1680 \<or>
     (0x2000 \<le> c \<and> c \<le> 0x200A) \<or> c = 0x2028 \<or> c = 0x2029 \<or> c = 0x202F \<or>
     c = 0x205F \<or> c = 0x3000 \<or> c = 0xFEFF"

definition is_alnum :: "jschar \<Rightarrow> bool" where
  \<comment> \<open>the class \<^verbatim>\<open>[a-z0-9]\<close>\<close>
  "is_alnum c \<longleftrightarrow> (0x61 \<le> c \<and> c \<le> 0x7A) \<or> (0x30 \<le> c \<and> c \<le> 0x39)"

definition is_combining :: "jschar \<Rightarrow> bool" where
  \<comment> \<open>the combining diacritical marks U+0300 to U+036F\<close>
  "is_combining c \<longleftrightarrow> 0x300 \<le> c \<and> c \<le> 0x36F"

definition is_ascii :: "jschar \<Rightarrow> bool" where
  "is_ascii c \<longleftrightarrow> c < 0x80"

definition hyphen :: jschar where "hyphen = 0x2D"
definition space :: jschar where "space = 0x20"
definition formfeed :: jschar where "formfeed = 0x0C"
definition comma :: jschar where "comma = 0x2C"
definition hash :: jschar where "hash = 0x23"
definition LF :: jschar where "LF = 0x0A"
definition CR :: jschar where "CR = 0x0D"

definition trim :: "jsstring \<Rightarrow> jsstring" where
  \<comment> \<open>\<^verbatim>\<open>String.prototype.trim\<close>\<close>
  "trim s = rev (dropWhile is_ws (rev (dropWhile is_ws s)))"

text \<open>
  \<^verbatim>\<open>s.replace(/[C]+/g, r)\<close> for a character class \<open>C\<close>: every maximal run of code units
  of the class is replaced by \<open>r\<close>.
\<close>

function replace_runs :: "(jschar \<Rightarrow> bool) \<Rightarrow> jsstring \<Rightarrow> jsstring \<Rightarrow> jsstring" where
  "replace_runs P r [] = []"
| "replace_runs P r (c # cs) =
     (if P c then r @ replace_runs P r (dropWhile P cs) else c # replace_runs P r cs)"
  by pat_completeness auto
termination
  by (relation "measure (\<lambda>(P, r, s). length s)")
     (auto simp: less_Suc_eq_le length_dropWhile_le)

subsection \<open>Unicode tables\<close>

text \<open>
  \<^verbatim>\<open>normalize("NFD")\<close>, \<^verbatim>\<open>toLowerCase()\<close> and \<^verbatim>\<open>toUpperCase()\<close> are built-ins driven by
  the Unicode character database. On a string of ASCII code units they are fixed by the
  standard: NFD leaves it unchanged and the case mappings act on the 26 letters only.
  That part is written out; what the built-ins do to a string holding a non-ASCII code
  unit is a parameter of the model, so every theorem holds whatever the tables say.
\<close>

record unicode =
  nfd_table :: "jsstring \<Rightarrow> jsstring"
  lower_table :: "jsstring \<Rightarrow> jsstring"
  upper_table :: "jsstring \<Rightarrow> jsstring"

definition ascii_lower :: "jschar \<Rightarrow> jschar" where
  "ascii_lower c = (if 0x41 \<le> c \<and> c \<le> 0x5A then c + 0x20 else c)"

definition ascii_upper :: "jschar \<Rightarrow> jschar" where
  "ascii_upper c = (if 0x61 \<le> c \<and> c \<le> 0x7A then c - 0x20 else c)"

definition normalizeNFD :: "unicode \<Rightarrow> jsstring \<Rightarrow> jsstring" where
  "normalizeNFD U s = (if list_all is_ascii s then s else nfd_table U s)"

definition toLowerCase :: "unicode \<Rightarrow> jsstring \<Rightarrow> jsstring" where
  "toLowerCase U s = (if list_all is_ascii s then map ascii_lower s else lower_table U s)"

definition toUpperCase :: "unicode \<Rightarrow> jsstring \<Rightarrow> jsstring" where
  "toUpperCase U s = (if list_all is_ascii s then map ascii_upper s else upper_table U s)"

section \<open>Name normalisation\<close>

definition strip_edge_hyphens :: "jsstring \<Rightarrow> jsstring" where
  \<comment> \<open>\<^verbatim>\<open>.replace(/^-|-$/g, "")\<close>: one hyphen at the start and one at the end\<close>
  "strip_edge_hyphens s =
     (let s1 = (case s of [] \<Rightarrow> [] | c # cs \<Rightarrow> if c = hyphen then cs else s)
      in if s1 \<noteq> [] \<and> last s1 = hyphen then butlast s1 else s1)"

definition normalizeName :: "unicode \<Rightarrow> jsstring \<Rightarrow> jsstring" where
  "normalizeName U v =
     strip_edge_hyphens
       (replace_runs (\<lambda>c. c = hyphen) [hyphen]
         (replace_runs (\<lambda>c. \<not> is_alnum c) [hyphen]
           (toLowerCase U
             (filter (\<lambda>c. \<not> is_combining c)
               (normalizeNFD U v)))))"

definition slugifyName :: "unicode \<Rightarrow> jsstring \<Rightarrow> jsstring" where
  "slugifyName U v = normalizeName U v"

text \<open>What the proofs say about a normalised name.\<close>

fun no_adjacent_hyphens :: "jsstring \<Rightarrow> bool" where
  "no_adjacent_hyphens [] = True"
| "no_adjacent_hyphens [a] = True"
| "no_adjacent_hyphens (a # b # cs) =
     (\<not> (a = hyphen \<and> b = hyphen) \<and> no_adjacent_hyphens (b # cs))"

definition slug_chars :: "jsstring \<Rightarrow> bool" where
  "slug_chars s = list_all (\<lambda>c. is_alnum c \<or> c = hyphen) s"

definition canonical :: "jsstring \<Rightarrow> bool" where
  "canonical s \<longleftrightarrow> slug_chars s \<and> no_adjacent_hyphens s \<and>
     (s \<noteq> [] \<longrightarrow> hd s \<noteq> hyphen \<and> last s \<noteq> hyphen)"

section \<open>Splitting and joining\<close>

definition prepend :: "jschar \<Rightarrow> jsstring list \<Rightarrow> jsstring list" where
  \<comment> \<open>one more code unit in front of the piece being read\<close>
  "prepend c ps = (case ps of [] \<Rightarrow> [[c]] | p # ps' \<Rightarrow> (c # p) # ps')"

fun split_lines :: "jsstring \<Rightarrow> jsstring list" where
  \<comment> \<open>\<^verbatim>\<open>content.split(/\r?\n/)\<close>\<close>
  "split_lines [] = [[]]"
| "split_lines [c] = (if c = LF then [[], []] else [[c]])"
| "split_lines (c # d # cs) =
     (if c = LF then [] # split_lines (d # cs)
      else if c = CR \<and> d = LF then [] # split_lines cs
      else prepend c (split_lines (d # cs)))"

fun split_on :: "jschar \<Rightarrow> jsstring \<Rightarrow> jsstring list" where
  \<comment> \<open>\<^verbatim>\<open>line.split(",")\<close> for a separator of one code unit\<close>
  "split_on d [] = [[]]"
| "split_on d (c # cs) =
     (if c = d then [] # split_on d cs else prepend c (split_on d cs))"

function split_ws :: "jsstring \<Rightarrow> jsstring list" where
  \<comment> \<open>\<^verbatim>\<open>name.split(/\s+/)\<close>\<close>
  "split_ws [] = [[]]"
| "split_ws (c # cs) =
     (if is_ws c then [] # split_ws (dropWhile is_ws cs) else prepend c (split_ws cs))"
  by pat_completeness auto
termination
  by (relation "measure length") (auto simp: less_Suc_eq_le length_dropWhile_le)

fun join_with :: "jsstring \<Rightarrow> jsstring list \<Rightarrow> jsstring" where
  \<comment> \<open>\<^verbatim>\<open>Array.prototype.join\<close>\<close>
  "join_with sep [] = []"
| "join_with sep [p] = p"
| "join_with sep (p # q # ps) = p @ sep @ join_with sep (q # ps)"

text \<open>The words of a string: its maximal runs of code units that are not white space.\<close>

function ws_words :: "jsstring \<Rightarrow> jsstring list" where
  "ws_words s =
     (case dropWhile is_ws s of
        [] \<Rightarrow> []
      | c # cs \<Rightarrow> (c # takeWhile (\<lambda>x. \<not> is_ws x) cs) # ws_words (dropWhile (\<lambda>x. \<not> is_ws x) cs))"
  by pat_completeness auto
termination
proof (relation "measure length", goal_cases)
  case 1
  show ?case by simp
next
  case (2 s c cs)
  have "length (dropWhile (\<lambda>x. \<not> is_ws x) cs) \<le> length cs"
    by (rule length_dropWhile_le)
  moreover have "length (c # cs) \<le> length s"
    using length_dropWhile_le [of is_ws s] 2 by simp
  ultimately show ?case by simp
qed

declare ws_words.simps [simp del]


section \<open>The input parser\<close>

definition startsWith_hash :: "jsstring \<Rightarrow> bool" where
  \<comment> \<open>\<^verbatim>\<open>line.startsWith("#")\<close>\<close>
  "startsWith_hash line = (case line of [] \<Rightarrow> False | c # _ \<Rightarrow> c = hash)"

definition parseCsv :: "jsstring \<Rightarrow> jsstring list list" where
  "parseCsv content =
     map (\<lambda>line. map trim (split_on comma line))
       (filter (\<lambda>line. length line > 0 \<and> \<not> startsWith_hash line)
         (map trim (split_lines content)))"

section \<open>Title case and flavor text\<close>

definition capitalizeName :: "unicode \<Rightarrow> jsstring \<Rightarrow> jsstring" where
  "capitalizeName U name =
     join_with [space]
       (map (\<lambda>word. toUpperCase U (take 1 word) @ toLowerCase U (drop 1 word))
         (split_ws name))"

definition sanitizeFlavorText :: "jsstring \<Rightarrow> jsstring" where
  "sanitizeFlavorText rawText =
     trim (replace_runs is_ws [space]
       (map (\<lambda>c. if c = formfeed then space else c) rawText))"

text \<open>
  The records of the reference API, as far as the script reads them. A field that is
  \<^verbatim>\<open>null\<close> or missing is \<open>None\<close>: that is what \<^verbatim>\<open>?.\<close> and \<^verbatim>\<open>??\<close> test. The records
  are typed: the text fields are strings and the entries form an array. On a response
  of another shape the script raises a \<^verbatim>\<open>TypeError\<close> inside its \<^verbatim>\<open>try\<close> block, which the
  model counts among the rejected fetches.
\<close>

record flavor_language =
  language_name :: "jsstring option"

record flavor_entry =
  language :: "flavor_language option"
  flavor_text :: "jsstring option"

record species_data =
  flavor_text_entries :: "flavor_entry list option"

record artwork =
  artwork_front_default :: "jsstring option"

record other_sprites =
  official_artwork :: "artwork option"

record sprites_data =
  other :: "other_sprites option"
  front_default :: "jsstring option"

record pokemon_data =
  sprites :: "sprites_data option"

definition nullish_or :: "'a option \<Rightarrow> 'a option \<Rightarrow> 'a option" where
  \<comment> \<open>\<^verbatim>\<open>a ?? b\<close>\<close>
  "nullish_or a b = (case a of Some x \<Rightarrow> Some x | None \<Rightarrow> b)"

definition language_is :: "string \<Rightarrow> flavor_entry \<Rightarrow> bool" where
  \<comment> \<open>\<^verbatim>\<open>entry.language?.name === "fr"\<close>\<close>
  "language_is code entry = (Option.bind (language entry) language_name = Some (js code))"

definition flavor_entries :: "species_data option \<Rightarrow> flavor_entry list" where
  \<comment> \<open>\<^verbatim>\<open>speciesData?.flavor_text_entries ?? []\<close>\<close>
  "flavor_entries speciesData =
     (case Option.bind speciesData flavor_text_entries of None \<Rightarrow> [] | Some es \<Rightarrow> es)"

definition extractFlavorText :: "species_data option \<Rightarrow> jsstring" where
  "extractFlavorText speciesData =
     (let entries = flavor_entries speciesData;
          frenchEntry = find (language_is ''fr'') entries;
          englishEntry = find (language_is ''en'') entries;
          fallback = (case entries of [] \<Rightarrow> None | e # _ \<Rightarrow> Some e);
          text = (case nullish_or (Option.bind frenchEntry flavor_text)
                         (nullish_or (Option.bind englishEntry flavor_text)
                            (Option.bind fallback flavor_text)) of
                    Some t \<Rightarrow> t
                  | None \<Rightarrow> [])
      in sanitizeFlavorText text)"



definition official_artwork_url :: "pokemon_data option \<Rightarrow> jsstring option" where
  \<comment> \<open>\<^verbatim>\<open>pokemonData?.sprites?.other?.["official-artwork"]?.front_default\<close>\<close>
  "official_artwork_url pokemonData =
     Option.bind (Option.bind (Option.bind (Option.bind pokemonData sprites) other)
       official_artwork) artwork_front_default"

definition basic_sprite_url :: "pokemon_data option \<Rightarrow> jsstring option" where
  \<comment> \<open>\<^verbatim>\<open>pokemonData?.sprites?.front_default\<close>\<close>
  "basic_sprite_url pokemonData = Option.bind (Option.bind pokemonData sprites) front_default"

definition select_image :: "pokemon_data option \<Rightarrow> jsstring option" where
  \<comment> \<open>lines 44 to 47 of \<^verbatim>\<open>main\<close>\<close>
  "select_image pokemonData =
     nullish_or (official_artwork_url pokemonData)
       (nullish_or (basic_sprite_url pokemonData) None)"

section \<open>The alias table\<close>

record alias_name =
  english :: "jsstring option"
  french :: "jsstring option"

text \<open>
  A record of the reference dataset. The script reads the id only through
  \<^verbatim>\<open>String(entry.id)\<close>, so the record holds that text, whatever the JSON value is: plain
  digits for the dataset's numbers, exponent notation from \<^verbatim>\<open>1e21\<close> on, the string itself
  (the empty one too) for a string.
\<close>

record alias_entry =
  entry_id :: jsstring
  entry_name :: "alias_name option"

text \<open>
  A JavaScript \<^verbatim>\<open>Map\<close> keeps its keys in insertion order: \<^verbatim>\<open>set\<close> on a key that is there
  replaces the value in place, on a new key it appends. That is an association list with
  \<open>AList.update\<close>; \<^verbatim>\<open>has\<close> and \<^verbatim>\<open>get\<close> are \<open>map_of\<close>.
\<close>

type_synonym alias_map = "(jsstring \<times> jsstring) list"

fun string_of_id :: "nat \<Rightarrow> jsstring" where
  \<comment> \<open>\<^verbatim>\<open>String(n)\<close> for an id that is an integer \<open>n\<close> below \<open>10 ^ 21\<close>, where \<^verbatim>\<open>String\<close>
      writes the decimal digits\<close>
  "string_of_id n =
     (if n < 10 then [0x30 + of_nat n]
      else string_of_id (n div 10) @ [0x30 + of_nat (n mod 10)])"

declare string_of_id.simps [simp del]

definition english_of :: "alias_entry \<Rightarrow> jsstring" where
  \<comment> \<open>\<^verbatim>\<open>entry.name?.english ?? ""\<close>\<close>
  "english_of entry = (case Option.bind (entry_name entry) english of None \<Rightarrow> [] | Some e \<Rightarrow> e)"

definition french_of :: "alias_entry \<Rightarrow> jsstring" where
  \<comment> \<open>\<^verbatim>\<open>entry.name?.french ?? ""\<close>\<close>
  "french_of entry = (case Option.bind (entry_name entry) french of None \<Rightarrow> [] | Some f \<Rightarrow> f)"

definition entry_variants :: "unicode \<Rightarrow> alias_entry \<Rightarrow> jsstring list" where
  \<comment> \<open>\<^verbatim>\<open>[id, english, french, slugifyName(english)]\<close>\<close>
  "entry_variants U entry =
     [entry_id entry, english_of entry, french_of entry, slugifyName U (english_of entry)]"

definition add_entry :: "unicode \<Rightarrow> alias_map \<Rightarrow> alias_entry \<Rightarrow> alias_map" where
  \<comment> \<open>the body of \<^verbatim>\<open>data.forEach\<close>\<close>
  "add_entry U m entry =
     foldl (\<lambda>m variant.
              if variant \<noteq> []
              then AList.update (normalizeName U variant) (entry_id entry) m
              else m)
       m (entry_variants U entry)"

datatype js_error = JsError jsstring

definition buildPokemonAliasMap ::
  "unicode \<Rightarrow> js_error + alias_entry list \<Rightarrow> js_error + alias_map" where
  \<comment> \<open>the argument is what \<^verbatim>\<open>await fetchJson(ALIAS_DATA_URL)\<close> delivers; a rejected
      request rejects the whole function, and so does a dataset that is not an array
      of records, on which \<^verbatim>\<open>forEach\<close> raises\<close>
  "buildPokemonAliasMap U response =
     (case response of
        Inl e \<Rightarrow> Inl e
      | Inr data \<Rightarrow> Inr (foldl (add_entry U) [] data))"

definition alias_keys :: "unicode \<Rightarrow> alias_entry \<Rightarrow> jsstring list" where
  \<comment> \<open>the keys one reference record contributes\<close>
  "alias_keys U entry = map (normalizeName U) (filter (\<lambda>v. v \<noteq> []) (entry_variants U entry))"

section \<open>The process state\<close>

text \<open>
  The script is single-threaded: a function body runs without interruption up to its
  next \<^verbatim>\<open>await\<close>. The network and the file system are parameters: a request takes the
  state of the outside world and returns the answer with the world after it, so the
  same URL may be answered differently at different times.
\<close>

datatype promise = Pending | Fulfilled alias_map

datatype request = AliasDataRequest | PokemonRequest jsstring | SpeciesRequest jsstring

datatype level = LogLevel | WarnLevel | ErrorLevel

datatype message =
    Usage
  | NoDataFound
  | SkippingIncompleteRow "jsstring list"
  | NoArtworkFound jsstring
  | FailedToFetch jsstring js_error
  | AliasTableUnavailable js_error
  | DataWritten jsstring
  | FallbackWritten jsstring
  | Uncaught js_error

record team_record =
  name :: jsstring
  pokemon :: jsstring
  image :: "jsstring option"
  description :: jsstring

record 'w state =
  world :: 'w
  aliasMapPromise :: "promise option"
  console :: "(level \<times> message) list"
  requests :: "request list"
  datasets :: "team_record list"

record 'w env =
  tables :: unicode
  readFile :: "jsstring \<Rightarrow> js_error + jsstring"
  writeFile_error :: "jsstring \<Rightarrow> js_error option"
  fetchAliasData :: "'w \<Rightarrow> (js_error + alias_entry list) \<times> 'w"
  fetchPokemon :: "jsstring \<Rightarrow> 'w \<Rightarrow> (js_error + pokemon_data option) \<times> 'w"
  fetchSpecies :: "jsstring \<Rightarrow> 'w \<Rightarrow> (js_error + species_data option) \<times> 'w"
  species_rejects_first :: "jsstring \<Rightarrow> 'w \<Rightarrow> bool"
  path_resolve :: "jsstring \<Rightarrow> jsstring"
  path_dirname :: "jsstring \<Rightarrow> jsstring"
  path_basename :: "jsstring \<Rightarrow> jsstring \<Rightarrow> jsstring"
  path_extname :: "jsstring \<Rightarrow> jsstring"
  path_join :: "jsstring \<Rightarrow> jsstring \<Rightarrow> jsstring"

definition log_to :: "level \<Rightarrow> message \<Rightarrow> 'w state \<Rightarrow> 'w state" where
  "log_to l m st = st\<lparr>console := console st @ [(l, m)]\<rparr>"

definition send :: "request \<Rightarrow> 'w state \<Rightarrow> 'w state" where
  "send r st = st\<lparr>requests := requests st @ [r]\<rparr>"

subsection \<open>The memoised alias table\<close>

text \<open>
  \<^verbatim>\<open>getPokemonAliasMap\<close> has a synchronous part and an answer that arrives later.
  The synchronous part tests the module variable; when it is unset the call of
  \<^verbatim>\<open>buildPokemonAliasMap()\<close> runs to its first \<^verbatim>\<open>await\<close>, which sends the request, and the
  pending promise (with its \<^verbatim>\<open>catch\<close> handler) is stored before control returns.
  When the answer arrives the promise is settled: with the table, or, through the
  handler, with an empty table and a line on the error stream.
\<close>

definition getPokemonAliasMap_sync :: "'w state \<Rightarrow> 'w state" where
  "getPokemonAliasMap_sync st =
     (if aliasMapPromise st = None
      then (send AliasDataRequest st)\<lparr>aliasMapPromise := Some Pending\<rparr>
      else st)"

definition settle_alias :: "unicode \<Rightarrow> js_error + alias_entry list \<Rightarrow> 'w state \<Rightarrow> 'w state" where
  "settle_alias U response st =
     (case aliasMapPromise st of
        Some Pending \<Rightarrow>
          (case buildPokemonAliasMap U response of
             Inr m \<Rightarrow> st\<lparr>aliasMapPromise := Some (Fulfilled m)\<rparr>
           | Inl e \<Rightarrow> (log_to ErrorLevel (AliasTableUnavailable e) st)
                       \<lparr>aliasMapPromise := Some (Fulfilled [])\<rparr>)
      | _ \<Rightarrow> st)"

definition promised_map :: "'w state \<Rightarrow> alias_map" where
  \<comment> \<open>the value an \<^verbatim>\<open>await\<close> of the settled promise gives\<close>
  "promised_map st = (case aliasMapPromise st of Some (Fulfilled m) \<Rightarrow> m | _ \<Rightarrow> [])"

definition getPokemonAliasMap :: "'w env \<Rightarrow> 'w state \<Rightarrow> alias_map \<times> 'w state" where
  \<comment> \<open>\<^verbatim>\<open>await getPokemonAliasMap()\<close>: the call, then the wait for the answer\<close>
  "getPokemonAliasMap E st =
     (let st1 = getPokemonAliasMap_sync st;
          st2 = (case aliasMapPromise st1 of
                   Some Pending \<Rightarrow>
                     (let (response, w) = fetchAliasData E (world st1)
                      in settle_alias (tables E) response (st1\<lparr>world := w\<rparr>))
                 | _ \<Rightarrow> st1)
      in (promised_map st2, st2))"

definition resolvePokemonIdentifier ::
  "'w env \<Rightarrow> jsstring \<Rightarrow> 'w state \<Rightarrow> jsstring \<times> 'w state" where
  "resolvePokemonIdentifier E rawName st =
     (let (aliasMap, st1) = getPokemonAliasMap E st;
          normalized = normalizeName (tables E) rawName
      in case map_of aliasMap normalized of
           Some identifier \<Rightarrow> (identifier, st1)
         | None \<Rightarrow>
             (let slug = slugifyName (tables E) rawName
              in (if length slug > 0 then slug else rawName, st1)))"

text \<open>What \<^verbatim>\<open>resolvePokemonIdentifier\<close> returns when no alias matches, for the statements below.\<close>

definition fallback :: "unicode \<Rightarrow> jsstring \<Rightarrow> jsstring" where
  "fallback U raw = (if slugifyName U raw \<noteq> [] then slugifyName U raw else raw)"

text \<open>Calls of the resolver and answers of the network, in any order.\<close>

datatype event = ResolverCall | AliasAnswer "js_error + alias_entry list"

definition step :: "unicode \<Rightarrow> 'w state \<Rightarrow> event \<Rightarrow> 'w state" where
  "step U st ev =
     (case ev of
        ResolverCall \<Rightarrow> getPokemonAliasMap_sync st
      | AliasAnswer response \<Rightarrow> settle_alias U response st)"

definition alias_fetches :: "'w state \<Rightarrow> nat" where
  "alias_fetches st = length (filter (\<lambda>r. r = AliasDataRequest) (requests st))"

text \<open>
  The invariant of the memoisation: the alias dataset has been requested once when the
  module variable is set, and not at all when it is unset.
\<close>

definition fetched_once :: "'w state \<Rightarrow> bool" where
  "fetched_once st \<longleftrightarrow> alias_fetches st = (if aliasMapPromise st = None then 0 else 1)"

section \<open>The assembler\<close>

definition fetch_both ::
  "'w env \<Rightarrow> jsstring \<Rightarrow> 'w state \<Rightarrow>
   (js_error + pokemon_data option \<times> species_data option) \<times> 'w state" where
  \<comment> \<open>\<^verbatim>\<open>await Promise.all([fetchJson(...), fetchJson(...)])\<close>: both requests are sent, and
      one rejection rejects the pair. The functions of the environment take the
      identifier: \<^verbatim>\<open>encodeURIComponent\<close>, which raises on a lone surrogate, is part of
      them. When both requests are rejected, \<^verbatim>\<open>Promise.all\<close> rejects with the rejection
      that arrives first; which one that is, the environment says.\<close>
  "fetch_both E identifier st =
     (let (r1, w1) = fetchPokemon E identifier (world st);
          (r2, w2) = fetchSpecies E identifier w1;
          st1 = (send (SpeciesRequest identifier) (send (PokemonRequest identifier) st))
                  \<lparr>world := w2\<rparr>
      in case r1 of
           Inl e1 \<Rightarrow>
             (case r2 of
                Inl e2 \<Rightarrow>
                  (Inl (if species_rejects_first E identifier (world st) then e2 else e1), st1)
              | Inr _ \<Rightarrow> (Inl e1, st1))
         | Inr pokemonData \<Rightarrow>
             (case r2 of
                Inl e2 \<Rightarrow> (Inl e2, st1)
              | Inr speciesData \<Rightarrow> (Inr (pokemonData, speciesData), st1)))"

definition process_row :: "'w env \<Rightarrow> 'w state \<Rightarrow> jsstring list \<Rightarrow> 'w state" where
  \<comment> \<open>the body of the \<^verbatim>\<open>for\<close> loop of \<^verbatim>\<open>main\<close>; a missing field is \<^verbatim>\<open>undefined\<close>.
      The source's variables \<^verbatim>\<open>pokemon\<close>, \<^verbatim>\<open>image\<close> and \<^verbatim>\<open>description\<close> are \<open>species\<close>,
      \<open>img\<close> and \<open>descr\<close> here, the record fields keep the names.\<close>
  "process_row E st row =
     (case row of
        person # species # _ \<Rightarrow>
          if person = [] \<or> species = []
          then log_to WarnLevel (SkippingIncompleteRow row) st
          else
            (let trimmedPokemon = trim species;
                 (identifier, st1) = resolvePokemonIdentifier E trimmedPokemon st;
                 (fetched, st2) = fetch_both E identifier st1
             in case fetched of
                  Inl error \<Rightarrow> log_to ErrorLevel (FailedToFetch species error) st2
                | Inr (pokemonData, speciesData) \<Rightarrow>
                    (let img = select_image pokemonData;
                         st3 = (if img = None \<or> img = Some []
                                then log_to WarnLevel (NoArtworkFound species) st2
                                else st2);
                         descr = extractFlavorText speciesData
                     in st3\<lparr>datasets := datasets st3 @
                          [\<lparr>name = trim person,
                            pokemon = capitalizeName (tables E) trimmedPokemon,
                            image = img,
                            description = descr\<rparr>]\<rparr>))
      | _ \<Rightarrow> log_to WarnLevel (SkippingIncompleteRow row) st)"

datatype payload = JsonText "team_record list" | SidecarScript "team_record list"

record 'w run =
  exit_code :: nat
  final :: "'w state"
  stdout :: "payload option"
  files :: "(jsstring \<times> payload) list"

definition initial :: "'w \<Rightarrow> 'w state" where
  "initial w =
     \<lparr>world = w, aliasMapPromise = None, console = [], requests = [], datasets = []\<rparr>"

definition exit_with :: "message \<Rightarrow> 'w state \<Rightarrow> (jsstring \<times> payload) list \<Rightarrow> 'w run" where
  \<comment> \<open>\<^verbatim>\<open>console.error(...); process.exit(1)\<close>\<close>
  "exit_with m st fs =
     \<lparr>exit_code = 1, final = log_to ErrorLevel m st, stdout = None, files = fs\<rparr>"

definition buildSidecarPath :: "'w env \<Rightarrow> jsstring \<Rightarrow> jsstring" where
  "buildSidecarPath E outputFile =
     (let directory = path_dirname E outputFile;
          baseName = path_basename E outputFile (path_extname E outputFile)
      in path_join E directory (baseName @ js ''.js''))"

definition write_output :: "'w env \<Rightarrow> jsstring option \<Rightarrow> 'w state \<Rightarrow> 'w run" where
  \<comment> \<open>lines 66 to 78 of \<^verbatim>\<open>main\<close>; a failed write is caught at top level\<close>
  "write_output E outputPath st =
     (case outputPath of
        Some out \<Rightarrow>
          (let resolvedOutput = path_resolve E out in
           case writeFile_error E resolvedOutput of
             Some e \<Rightarrow> exit_with (Uncaught e) st []
           | None \<Rightarrow>
               (let st1 = log_to LogLevel (DataWritten resolvedOutput) st;
                    sidecarPath = buildSidecarPath E resolvedOutput
                in case writeFile_error E sidecarPath of
                     Some e \<Rightarrow>
                       exit_with (Uncaught e) st1 [(resolvedOutput, JsonText (datasets st))]
                   | None \<Rightarrow>
                       \<lparr>exit_code = 0,
                        final = log_to LogLevel (FallbackWritten sidecarPath) st1,
                        stdout = None,
                        files = [(resolvedOutput, JsonText (datasets st)),
                                 (sidecarPath, SidecarScript (datasets st))]\<rparr>))
      | None \<Rightarrow>
          \<lparr>exit_code = 0, final = st, stdout = Some (JsonText (datasets st)), files = []\<rparr>)"

definition argument :: "jsstring list \<Rightarrow> nat \<Rightarrow> jsstring option" where
  \<comment> \<open>an element of \<^verbatim>\<open>process.argv.slice(2)\<close> that is there and not the empty string\<close>
  "argument args i = (if i < length args \<and> args ! i \<noteq> [] then Some (args ! i) else None)"

definition main :: "'w env \<Rightarrow> 'w \<Rightarrow> jsstring list \<Rightarrow> 'w run" where
  "main E w args =
     (case argument args 0 of
        None \<Rightarrow> exit_with Usage (initial w) []
      | Some inputPath \<Rightarrow>
          (case readFile E (path_resolve E inputPath) of
             Inl e \<Rightarrow> exit_with (Uncaught e) (initial w) []
           | Inr csvContent \<Rightarrow>
               (let rows = parseCsv csvContent in
                if length rows = 0 then exit_with NoDataFound (initial w) []
                else write_output E (argument args 1) (foldl (process_row E) (initial w) rows))))"

subsection \<open>What a row contributes\<close>

text \<open>
  The record that the specification assigns to a row read in a given state: none for an
  incomplete row, none when one of the two requests for its identifier is rejected, and
  the record assembled from the two answers otherwise.
\<close>

definition row_record :: "'w env \<Rightarrow> 'w state \<Rightarrow> jsstring list \<Rightarrow> team_record option" where
  "row_record E st row =
     (case row of
        person # species # _ \<Rightarrow>
          if person = [] \<or> species = [] then None
          else
            (let (identifier, st1) = resolvePokemonIdentifier E (trim species) st;
                 (r1, w1) = fetchPokemon E identifier (world st1);
                 (r2, w2) = fetchSpecies E identifier w1
             in case r1 of
                  Inl _ \<Rightarrow> None
                | Inr pokemonData \<Rightarrow>
                    (case r2 of
                       Inl _ \<Rightarrow> None
                     | Inr speciesData \<Rightarrow>
                         Some \<lparr>name = trim person,
                               pokemon = capitalizeName (tables E) (trim species),
                               image = select_image pokemonData,
                               description = extractFlavorText speciesData\<rparr>))
      | _ \<Rightarrow> None)"

fun row_records :: "'w env \<Rightarrow> 'w state \<Rightarrow> jsstring list list \<Rightarrow> team_record option list" where
  "row_records E st [] = []"
| "row_records E st (row # rows) = row_record E st row # row_records E (process_row E st row) rows"

definition usable :: "jsstring list \<Rightarrow> bool" where
  \<comment> \<open>a row with both the person and the species field non-empty\<close>
  "usable row = (case row of person # species # _ \<Rightarrow> person \<noteq> [] \<and> species \<noteq> [] | _ \<Rightarrow> False)"

section \<open>A stub of the outside world\<close>

text \<open>
  A reference API that knows Pikachu (number 25) only, and a file \<^verbatim>\<open>team.csv\<close> with the
  two rows of the specification's end-to-end example. The flag says whether the alias
  dataset can be fetched.
\<close>

definition ascii_tables :: unicode where
  "ascii_tables = \<lparr>nfd_table = (\<lambda>s. s), lower_table = (\<lambda>s. s), upper_table = (\<lambda>s. s)\<rparr>"

definition pikachu_entry :: alias_entry where
  "pikachu_entry =
     \<lparr>entry_id = js ''25'',
      entry_name = Some \<lparr>english = Some (js ''Pikachu''), french = Some (js ''Pikachu'')\<rparr>\<rparr>"

definition pikachu_data :: pokemon_data where
  "pikachu_data =
     \<lparr>sprites = Some
        \<lparr>other = Some \<lparr>official_artwork = Some \<lparr>artwork_front_default = Some (js ''art/25.png'')\<rparr>\<rparr>,
         front_default = Some (js ''sprite/25.png'')\<rparr>\<rparr>"

definition pikachu_species :: species_data where
  "pikachu_species =
     \<lparr>flavor_text_entries = Some
        [\<lparr>language = Some \<lparr>language_name = Some (js ''en'')\<rparr>,
          flavor_text = Some (js ''Mouse'' @ [LF] @ js ''Pokemon.'')\<rparr>,
         \<lparr>language = Some \<lparr>language_name = Some (js ''fr'')\<rparr>,
          flavor_text = Some (js ''Souris'' @ [formfeed, LF] @ js ''  electrique. '')\<rparr>]\<rparr>"

definition team_csv :: jsstring where
  "team_csv = js ''Ash,Pikachu'' @ [LF] @ js ''Misty,Starmie''"

definition not_found :: js_error where
  "not_found = JsError (js ''Request failed with status 404'')"

definition stub :: "bool \<Rightarrow> unit env" where
  "stub alias_online =
     \<lparr>tables = ascii_tables,
      readFile = (\<lambda>p. if p = js ''team.csv'' then Inr team_csv else Inl not_found),
      writeFile_error = (\<lambda>p. None),
      fetchAliasData = (\<lambda>w. (if alias_online then Inr [pikachu_entry] else Inl not_found, w)),
      fetchPokemon = (\<lambda>i w. (if i = js ''25'' \<or> i = js ''pikachu''
                                then Inr (Some pikachu_data) else Inl not_found, w)),
      fetchSpecies = (\<lambda>i w. (if i = js ''25'' \<or> i = js ''pikachu''
                                then Inr (Some pikachu_species) else Inl not_found, w)),
      species_rejects_first = (\<lambda>i w. False),
      path_resolve = (\<lambda>p. p),
      path_dirname = (\<lambda>p. []),
      path_basename = (\<lambda>p ext. take (length p - length ext) p),
      path_extname = (\<lambda>p. dropWhile (\<lambda>c. c \<noteq> 0x2E) p),
      path_join = (\<lambda>d p. d @ p)\<rparr>"

definition ash_record :: team_record where
  "ash_record =
     \<lparr>name = js ''Ash'', pokemon = js ''Pikachu'', image = Some (js ''art/25.png''),
      description = js ''Souris electrique.''\<rparr>"

definition no_art :: "unit env" where
  \<comment> \<open>the stub with a primary record that has no sprites\<close>
  "no_art = (stub True)\<lparr>fetchPokemon := (\<lambda>i w. (Inr (Some \<lparr>sprites = None\<rparr>), w))\<rparr>"

definition sprite_only :: "unit env" where
  \<comment> \<open>the stub with a primary record that has the basic sprite and no artwork\<close>
  "sprite_only =
     (stub True)\<lparr>fetchPokemon :=
       (\<lambda>i w. (Inr (Some \<lparr>sprites = Some \<lparr>other = Some \<lparr>official_artwork = None\<rparr>,
                                               front_default = Some (js ''sprite/25.png'')\<rparr>\<rparr>), w))\<rparr>"

definition timeout_error :: js_error where
  "timeout_error = JsError (js ''socket hang up'')"

definition species_down :: "unit env" where
  \<comment> \<open>the stub with the species endpoint rejecting every request\<close>
  "species_down = (stub True)\<lparr>fetchSpecies := (\<lambda>i w. (Inl timeout_error, w))\<rparr>"

definition pokemon_down :: "unit env" where
  \<comment> \<open>the stub with the primary endpoint rejecting every request\<close>
  "pokemon_down = (stub True)\<lparr>fetchPokemon := (\<lambda>i w. (Inl timeout_error, w))\<rparr>"

definition both_down :: "unit env" where
  \<comment> \<open>both endpoints rejecting, the species rejection arriving first\<close>
  "both_down =
     (stub True)\<lparr>fetchSpecies := (\<lambda>i w. (Inl timeout_error, w)),
                  fetchPokemon := (\<lambda>i w. (Inl not_found, w)),
                  species_rejects_first := (\<lambda>i w. True)\<rparr>"

definition eevee_entry :: alias_entry where
  \<comment> \<open>a reference record whose French name differs from the English one\<close>
  "eevee_entry =
     \<lparr>entry_id = js ''133'',
      entry_name = Some \<lparr>english = Some (js ''Eevee''), french = Some (js ''Evoli'')\<rparr>\<rparr>"

definition two_names :: "unit env" where
  \<comment> \<open>the stub with both records in the alias dataset\<close>
  "two_names = (stub True)\<lparr>fetchAliasData := (\<lambda>w. (Inr [pikachu_entry, eevee_entry], w))\<rparr>"

definition skipped :: "jsstring list list \<Rightarrow> (level \<times> message) list" where
  \<comment> \<open>one warning for each row, in order\<close>
  "skipped rows = map (\<lambda>row. (WarnLevel, SkippingIncompleteRow row)) rows"

definition only_ash :: "unit env" where
  \<comment> \<open>the stub with an input file of one line that has one field\<close>
  "only_ash = (stub True)\<lparr>readFile := (\<lambda>p. Inr (js ''Ash''))\<rparr>"

definition only_comments :: "unit env" where
  \<comment> \<open>the stub with an input file of a comment and blank lines\<close>
  "only_comments =
     (stub True)\<lparr>readFile := (\<lambda>p. Inr (js ''# team'' @ [CR, LF, LF] @ js ''  ''))\<rparr>"

section \<open>Properties of name normalisation\<close>

lemma alnum_not_hyphen: "is_alnum c \<Longrightarrow> c \<noteq> hyphen"
  by (auto simp: is_alnum_def hyphen_def)

lemma dropWhile_cases:
  obtains "dropWhile P xs = []" | y ys where "dropWhile P xs = y # ys" "\<not> P y"
  by (metis hd_dropWhile list.exhaust list.sel(1))

lemma replace_runs_run_end:
  "P c \<Longrightarrow> dropWhile P cs = [] \<Longrightarrow> replace_runs P r (c # cs) = r"
  by (simp del: dropWhile_eq_Nil_conv)

lemma replace_nonalnum_chars:
  "slug_chars (replace_runs (\<lambda>c. \<not> is_alnum c) [hyphen] t)"
  by (induction "\<lambda>c. \<not> is_alnum c" "[hyphen]" t rule: replace_runs.induct)
     (auto simp: slug_chars_def)

lemma replace_nonalnum_no_adjacent:
  "no_adjacent_hyphens (replace_runs (\<lambda>c. \<not> is_alnum c) [hyphen] t)"
proof (induction "\<lambda>c. \<not> is_alnum c" "[hyphen]" t rule: replace_runs.induct)
  case 1
  show ?case by simp
next
  case (2 c cs)
  note IH = this
  show ?case
  proof (cases "is_alnum c")
    case True
    with IH show ?thesis
      by (cases "replace_runs (\<lambda>c. \<not> is_alnum c) [hyphen] cs") (auto dest: alnum_not_hyphen)
  next
    case False
    show ?thesis
    proof (cases rule: dropWhile_cases [of "\<lambda>c. \<not> is_alnum c" cs])
      case 1
      with False show ?thesis by (simp add: replace_runs_run_end del: replace_runs.simps)
    next
      case (2 y ys)
      with False IH(1) show ?thesis by (auto dest: alnum_not_hyphen)
    qed
  qed
qed

lemma replace_hyphen_runs_id:
  "no_adjacent_hyphens s \<Longrightarrow> replace_runs (\<lambda>c. c = hyphen) [hyphen] s = s"
proof (induction s rule: no_adjacent_hyphens.induct)
  case 1
  show ?case by simp
next
  case (2 a)
  show ?case by simp
next
  case (3 a b cs)
  then show ?case by auto
qed

lemma replace_nonalnum_id:
  "slug_chars s \<Longrightarrow> no_adjacent_hyphens s \<Longrightarrow>
   replace_runs (\<lambda>c. \<not> is_alnum c) [hyphen] s = s"
proof (induction s rule: no_adjacent_hyphens.induct)
  case 1
  show ?case by simp
next
  case (2 a)
  then show ?case by (auto simp: slug_chars_def)
next
  case (3 a b cs)
  then show ?case by (auto simp: slug_chars_def dest: alnum_not_hyphen)
qed

lemma no_adjacent_butlast: "no_adjacent_hyphens s \<Longrightarrow> no_adjacent_hyphens (butlast s)"
  by (induction s rule: no_adjacent_hyphens.induct) auto

lemma no_adjacent_last_butlast:
  "no_adjacent_hyphens s \<Longrightarrow> last s = hyphen \<Longrightarrow> butlast s \<noteq> [] \<Longrightarrow> last (butlast s) \<noteq> hyphen"
  by (induction s rule: no_adjacent_hyphens.induct) (auto split: if_splits)

lemma slug_chars_butlast: "slug_chars s \<Longrightarrow> slug_chars (butlast s)"
  by (auto simp: slug_chars_def list_all_iff dest: in_set_butlastD)

lemma hd_butlast_keep: "butlast s \<noteq> [] \<Longrightarrow> hd (butlast s) = hd s"
  by (cases s) (auto split: if_splits)

lemma strip_last_canonical:
  assumes "slug_chars s" "no_adjacent_hyphens s" "s \<noteq> [] \<longrightarrow> hd s \<noteq> hyphen"
  shows "canonical (if s \<noteq> [] \<and> last s = hyphen then butlast s else s)"
  using assms
  by (auto simp: canonical_def slug_chars_butlast no_adjacent_butlast
      no_adjacent_last_butlast hd_butlast_keep)

lemma strip_edge_hyphens_canonical:
  assumes "slug_chars s" "no_adjacent_hyphens s"
  shows "canonical (strip_edge_hyphens s)"
proof (cases s)
  case Nil
  then show ?thesis by (simp add: strip_edge_hyphens_def canonical_def slug_chars_def)
next
  case (Cons c cs)
  show ?thesis
  proof (cases "c = hyphen")
    case True
    have "slug_chars cs" "no_adjacent_hyphens cs" "cs \<noteq> [] \<longrightarrow> hd cs \<noteq> hyphen"
      using assms Cons True by (cases cs; auto simp: slug_chars_def)+
    from strip_last_canonical [OF this] show ?thesis
      using Cons True by (simp add: strip_edge_hyphens_def)
  next
    case False
    have h: "s \<noteq> [] \<longrightarrow> hd s \<noteq> hyphen" using Cons False by simp
    have "strip_edge_hyphens (c # cs) =
        (if c # cs \<noteq> [] \<and> last (c # cs) = hyphen then butlast (c # cs) else c # cs)"
      using False by (simp add: strip_edge_hyphens_def Let_def)
    with strip_last_canonical [OF assms h] show ?thesis
      unfolding Cons by simp
  qed
qed

lemma slug_chars_plain:
  assumes "slug_chars n"
  shows "list_all is_ascii n" and "filter (\<lambda>c. \<not> is_combining c) n = n"
    and "map ascii_lower n = n"
proof -
  have a: "is_ascii c \<and> \<not> is_combining c \<and> ascii_lower c = c" if "is_alnum c \<or> c = hyphen" for c
    using that unfolding is_alnum_def is_ascii_def is_combining_def ascii_lower_def hyphen_def
    by (auto simp: word_le_nat_alt word_less_nat_alt)
  show "list_all is_ascii n" using assms a by (auto simp: slug_chars_def list_all_iff)
  show "filter (\<lambda>c. \<not> is_combining c) n = n"
    using assms a by (auto simp: slug_chars_def list_all_iff intro: filter_True)
  show "map ascii_lower n = n"
    using assms a by (auto simp: slug_chars_def list_all_iff intro: map_idI)
qed

lemma strip_edge_hyphens_id:
  "s \<noteq> [] \<longrightarrow> hd s \<noteq> hyphen \<and> last s \<noteq> hyphen \<Longrightarrow> strip_edge_hyphens s = s"
  by (cases s) (auto simp: strip_edge_hyphens_def)

lemma canonical_fixed:
  assumes "canonical n"
  shows "normalizeName U n = n"
proof -
  from assms have s: "slug_chars n" and a: "no_adjacent_hyphens n"
    and e: "n \<noteq> [] \<longrightarrow> hd n \<noteq> hyphen \<and> last n \<noteq> hyphen"
    by (simp_all add: canonical_def)
  show ?thesis
    unfolding normalizeName_def normalizeNFD_def toLowerCase_def
    by (simp add: slug_chars_plain [OF s] replace_nonalnum_id [OF s a]
        replace_hyphen_runs_id [OF a] strip_edge_hyphens_id [OF e])
qed

lemma normalizeName_canonical: "canonical (normalizeName U v)"
  unfolding normalizeName_def
  by (intro strip_edge_hyphens_canonical)
     (simp_all add: replace_hyphen_runs_id replace_nonalnum_no_adjacent replace_nonalnum_chars)

section \<open>Properties of splitting, trimming and the sanitiser\<close>

lemma split_ws_unfold:
  "split_ws s = takeWhile (\<lambda>x. \<not> is_ws x) s #
     (case dropWhile (\<lambda>x. \<not> is_ws x) s of [] \<Rightarrow> [] | d # ds \<Rightarrow> split_ws (dropWhile is_ws ds))"
proof (induction s)
  case Nil
  show ?case by simp
next
  case (Cons c cs)
  show ?case
  proof (cases "is_ws c")
    case True
    then show ?thesis by simp
  next
    case False
    then show ?thesis by (subst split_ws.simps, subst Cons.IH) (simp add: prepend_def)
  qed
qed


lemma ws_words_ws: "is_ws c \<Longrightarrow> ws_words (c # cs) = ws_words (dropWhile is_ws cs)"
  by (simp add: ws_words.simps [of "c # cs"] ws_words.simps [of "dropWhile is_ws cs"])

lemma ws_words_nonws:
  "\<not> is_ws c \<Longrightarrow> ws_words (c # cs) =
     (c # takeWhile (\<lambda>x. \<not> is_ws x) cs) # ws_words (dropWhile (\<lambda>x. \<not> is_ws x) cs)"
  by (simp add: ws_words.simps [of "c # cs"])

lemma split_ws_trimmed:
  "s \<noteq> [] \<Longrightarrow> \<not> is_ws (hd s) \<Longrightarrow> \<not> is_ws (last s) \<Longrightarrow> split_ws s = ws_words s"
proof (induction s rule: length_induct)
  case (1 s)
  from "1.prems" obtain c cs where s: "s = c # cs" and c: "\<not> is_ws c"
    by (cases s) auto
  let ?rest = "dropWhile (\<lambda>x. \<not> is_ws x) cs"
  show ?case
  proof (cases ?rest)
    case Nil
    show ?thesis unfolding s
      by (subst split_ws_unfold) (simp add: c Nil ws_words_nonws ws_words.simps [of "[]"])
  next
    case (Cons d ds)
    let ?t = "dropWhile is_ws ds"
    have d: "is_ws d" using Cons hd_dropWhile [of "\<lambda>x. \<not> is_ws x" cs] by auto
    have cs: "cs = takeWhile (\<lambda>x. \<not> is_ws x) cs @ d # ds"
      using Cons takeWhile_dropWhile_id [of "\<lambda>x. \<not> is_ws x" cs] by simp
    have last: "last s = last (d # ds)"
      by (subst s, subst cs) simp
    have t_ne: "?t \<noteq> []"
    proof
      assume "?t = []"
      then have "\<forall>x\<in>set ds. is_ws x" by simp
      then have "is_ws (last (d # ds))" using d by (cases ds) auto
      with last "1.prems"(3) show False by simp
    qed
    then have hd_t: "\<not> is_ws (hd ?t)" by (rule hd_dropWhile)
    have "last ?t = last ds" using t_ne by (metis last_appendR takeWhile_dropWhile_id)
    moreover have "ds \<noteq> []" using t_ne by auto
    ultimately have last_t: "\<not> is_ws (last ?t)" using last "1.prems"(3) by simp
    have "length ?t < length s"
      using length_dropWhile_le [of is_ws ds] length_dropWhile_le [of "\<lambda>x. \<not> is_ws x" cs] Cons s
      by simp
    with 1 t_ne hd_t last_t have IH: "split_ws ?t = ws_words ?t" by blast
    show ?thesis unfolding s
      by (subst split_ws_unfold) (simp add: c Cons d IH ws_words_nonws ws_words_ws)
  qed
qed

lemma trim_fixed:
  assumes "trim s = s" "s \<noteq> []"
  shows "\<not> is_ws (hd s) \<and> \<not> is_ws (last s)"
proof -
  have l1: "length (trim s) \<le> length (dropWhile is_ws s)"
    unfolding trim_def using length_dropWhile_le [of is_ws "rev (dropWhile is_ws s)"] by simp
  have l2: "length (dropWhile is_ws s) \<le> length s" by (rule length_dropWhile_le)
  from assms l1 l2 have "length (dropWhile is_ws s) = length s" by simp
  then have a: "dropWhile is_ws s = s"
    by (metis append_eq_conv_conj length_append takeWhile_dropWhile_id add_cancel_left_left length_0_conv append_Nil)
  then have h: "\<not> is_ws (hd s)" using assms(2) hd_dropWhile [of is_ws s] by simp
  from assms a have "rev (dropWhile is_ws (rev s)) = s" by (simp add: trim_def)
  then have "dropWhile is_ws (rev s) = rev s" by (metis rev_rev_ident)
  then have "\<not> is_ws (hd (rev s))" using assms(2) hd_dropWhile [of is_ws "rev s"] by simp
  then show ?thesis using h assms(2) by (simp add: hd_rev)
qed












lemma ws_words_nonempty: "w \<in> set (ws_words s) \<Longrightarrow> w \<noteq> []"
proof (induction s rule: ws_words.induct)
  case (1 s)
  show ?case
  proof (cases "dropWhile is_ws s")
    case Nil
    with "1.prems" show ?thesis by (simp add: ws_words.simps [of s] del: dropWhile_eq_Nil_conv)
  next
    case (Cons c cs)
    with "1.prems" have "w = c # takeWhile (\<lambda>x. \<not> is_ws x) cs \<or>
        w \<in> set (ws_words (dropWhile (\<lambda>x. \<not> is_ws x) cs))"
      by (simp add: ws_words.simps [of s])
    then show ?thesis using "1.IH" [OF Cons] by auto
  qed
qed


lemma capitalize_words:
  assumes "raw \<noteq> []" and "trim raw = raw"
  shows "capitalizeName U raw =
    join_with [space] (map (\<lambda>w. toUpperCase U [hd w] @ toLowerCase U (tl w)) (ws_words raw))"
proof -
  from trim_fixed [OF assms(2,1)] have "\<not> is_ws (hd raw)" "\<not> is_ws (last raw)" by simp_all
  with assms(1) have s: "split_ws raw = ws_words raw" by (rule split_ws_trimmed)
  have "map (\<lambda>word. toUpperCase U (take 1 word) @ toLowerCase U (drop 1 word)) (ws_words raw) =
      map (\<lambda>w. toUpperCase U [hd w] @ toLowerCase U (tl w)) (ws_words raw)"
  proof (rule map_cong [OF refl])
    fix w assume "w \<in> set (ws_words raw)"
    then have "w \<noteq> []" by (rule ws_words_nonempty)
    then show "toUpperCase U (take 1 w) @ toLowerCase U (drop 1 w) =
        toUpperCase U [hd w] @ toLowerCase U (tl w)"
      by (cases w) simp_all
  qed
  then show ?thesis by (simp only: capitalizeName_def s)
qed








lemma parseCsv_empty:
  "parseCsv csv = [] \<longleftrightarrow>
     list_all (\<lambda>line. trim line = [] \<or> startsWith_hash (trim line)) (split_lines csv)"
  by (auto simp: parseCsv_def filter_empty_conv list_all_iff)

section \<open>Properties of the assembler\<close>

lemma log_to_fields [simp]:
  "world (log_to l m st) = world st"
  "aliasMapPromise (log_to l m st) = aliasMapPromise st"
  "console (log_to l m st) = console st @ [(l, m)]"
  "requests (log_to l m st) = requests st"
  "datasets (log_to l m st) = datasets st"
  by (simp_all add: log_to_def)

lemma send_fields [simp]:
  "world (send r st) = world st"
  "aliasMapPromise (send r st) = aliasMapPromise st"
  "console (send r st) = console st"
  "requests (send r st) = requests st @ [r]"
  "datasets (send r st) = datasets st"
  by (simp_all add: send_def)

lemma sync_fields [simp]:
  "world (getPokemonAliasMap_sync st) = world st"
  "console (getPokemonAliasMap_sync st) = console st"
  "datasets (getPokemonAliasMap_sync st) = datasets st"
  by (simp_all add: getPokemonAliasMap_sync_def)

lemma settle_fields [simp]:
  "world (settle_alias U r st) = world st"
  "requests (settle_alias U r st) = requests st"
  "datasets (settle_alias U r st) = datasets st"
  by (simp_all add: settle_alias_def split: option.splits promise.splits sum.splits)

lemma getPokemonAliasMap_datasets [simp]:
  "datasets (snd (getPokemonAliasMap E st)) = datasets st"
  by (simp add: getPokemonAliasMap_def Let_def split: option.splits promise.splits prod.splits)

lemma resolve_datasets [simp]:
  "datasets (snd (resolvePokemonIdentifier E raw st)) = datasets st"
proof -
  obtain m st1 where g: "getPokemonAliasMap E st = (m, st1)" by (cases "getPokemonAliasMap E st")
  then have "datasets st1 = datasets st" using getPokemonAliasMap_datasets [of E st] by simp
  then show ?thesis
    by (simp add: resolvePokemonIdentifier_def g Let_def split: option.splits)
qed

lemma fetch_both_datasets [simp]:
  "datasets (snd (fetch_both E i st)) = datasets st"
  by (simp add: fetch_both_def Let_def split: prod.splits sum.splits)

lemma resolve_keeps_datasets:
  "resolvePokemonIdentifier E raw st = (i, st1) \<Longrightarrow> datasets st1 = datasets st"
  using resolve_datasets [of E raw st] by simp

lemma fetch_both_keeps_datasets:
  "fetch_both E i st1 = (fetched, st2) \<Longrightarrow> datasets st2 = datasets st1"
  using fetch_both_datasets [of E i st1] by simp

lemma process_row_unusable:
  "\<not> usable row \<Longrightarrow> process_row E st row = log_to WarnLevel (SkippingIncompleteRow row) st"
  by (auto simp: usable_def process_row_def split: list.splits)

lemma row_record_unusable: "\<not> usable row \<Longrightarrow> row_record E st row = None"
  by (auto simp: usable_def row_record_def split: list.splits)

lemma process_row_usable:
  assumes "person \<noteq> []" "species \<noteq> []"
    and "resolvePokemonIdentifier E (trim species) st = (identifier, st1)"
    and "fetch_both E identifier st1 = (fetched, st2)"
  shows "process_row E st (person # species # extra) =
    (case fetched of
       Inl error \<Rightarrow> log_to ErrorLevel (FailedToFetch species error) st2
     | Inr (pokemonData, speciesData) \<Rightarrow>
         (if select_image pokemonData = None \<or> select_image pokemonData = Some []
          then log_to WarnLevel (NoArtworkFound species) st2 else st2)
         \<lparr>datasets := datasets st @
            [\<lparr>name = trim person,
              pokemon = capitalizeName (tables E) (trim species),
              image = select_image pokemonData,
              description = extractFlavorText speciesData\<rparr>]\<rparr>)"
proof -
  have d: "datasets st2 = datasets st"
    using resolve_keeps_datasets [OF assms(3)] fetch_both_keeps_datasets [OF assms(4)] by simp
  show ?thesis
    using assms(1,2)
    by (simp add: process_row_def assms(3,4) Let_def d split: sum.splits prod.splits)
qed

lemma fetch_both_result:
  assumes "fetchPokemon E i (world st) = (r1, w1)" and "fetchSpecies E i w1 = (r2, w2)"
  shows "fetch_both E i st =
    (case r1 of
       Inl e1 \<Rightarrow>
         (case r2 of
            Inl e2 \<Rightarrow> Inl (if species_rejects_first E i (world st) then e2 else e1)
          | Inr _ \<Rightarrow> Inl e1)
     | Inr pokemonData \<Rightarrow>
         (case r2 of
            Inl e2 \<Rightarrow> Inl e2
          | Inr speciesData \<Rightarrow> Inr (pokemonData, speciesData)),
     (send (SpeciesRequest i) (send (PokemonRequest i) st))\<lparr>world := w2\<rparr>)"
  by (simp add: fetch_both_def assms Let_def split: sum.splits)

lemma row_record_requests:
  assumes "person \<noteq> []" "species \<noteq> []"
    and "resolvePokemonIdentifier E (trim species) st = (i, st1)"
    and "fetchPokemon E i (world st1) = (r1, w1)" and "fetchSpecies E i w1 = (r2, w2)"
  shows "row_record E st (person # species # extra) =
    (case r1 of
       Inl _ \<Rightarrow> None
     | Inr pokemonData \<Rightarrow>
         (case r2 of
            Inl _ \<Rightarrow> None
          | Inr speciesData \<Rightarrow>
              Some \<lparr>name = trim person,
                    pokemon = capitalizeName (tables E) (trim species),
                    image = select_image pokemonData,
                    description = extractFlavorText speciesData\<rparr>))"
  using assms(1,2) by (simp add: row_record_def assms(3,4,5) Let_def)

lemma row_record_usable:
  assumes "person \<noteq> []" "species \<noteq> []"
    and "resolvePokemonIdentifier E (trim species) st = (i, st1)"
    and "fetch_both E i st1 = (fetched, st2)"
  shows "row_record E st (person # species # extra) =
    (case fetched of
       Inl error \<Rightarrow> None
     | Inr (pokemonData, speciesData) \<Rightarrow>
         Some \<lparr>name = trim person,
              pokemon = capitalizeName (tables E) (trim species),
              image = select_image pokemonData,
              description = extractFlavorText speciesData\<rparr>)"
proof -
  obtain r1 w1 where p: "fetchPokemon E i (world st1) = (r1, w1)"
    by (cases "fetchPokemon E i (world st1)")
  obtain r2 w2 where s: "fetchSpecies E i w1 = (r2, w2)"
    by (cases "fetchSpecies E i w1")
  from assms(4) have "fetched = fst (fetch_both E i st1)" by simp
  then show ?thesis
    unfolding row_record_requests [OF assms(1,2,3) p s]
    by (simp add: fetch_both_result [OF p s] split: sum.splits)
qed

lemma process_row_requests:
  assumes "person \<noteq> []" "species \<noteq> []"
    and "resolvePokemonIdentifier E (trim species) st = (i, st1)"
    and "fetchPokemon E i (world st1) = (r1, w1)" and "fetchSpecies E i w1 = (r2, w2)"
  shows "process_row E st (person # species # extra) =
    (case (case r1 of
             Inl e1 \<Rightarrow>
               (case r2 of
                  Inl e2 \<Rightarrow> Inl (if species_rejects_first E i (world st1) then e2 else e1)
                | Inr _ \<Rightarrow> Inl e1)
           | Inr pokemonData \<Rightarrow>
               (case r2 of
                  Inl e2 \<Rightarrow> Inl e2
                | Inr speciesData \<Rightarrow> Inr (pokemonData, speciesData))) of
       Inl error \<Rightarrow>
         log_to ErrorLevel (FailedToFetch species error)
           ((send (SpeciesRequest i) (send (PokemonRequest i) st1))\<lparr>world := w2\<rparr>)
     | Inr (pokemonData, speciesData) \<Rightarrow>
         (if select_image pokemonData = None \<or> select_image pokemonData = Some []
          then log_to WarnLevel (NoArtworkFound species)
                 ((send (SpeciesRequest i) (send (PokemonRequest i) st1))\<lparr>world := w2\<rparr>)
          else (send (SpeciesRequest i) (send (PokemonRequest i) st1))\<lparr>world := w2\<rparr>)
         \<lparr>datasets := datasets st @
            [\<lparr>name = trim person,
              pokemon = capitalizeName (tables E) (trim species),
              image = select_image pokemonData,
              description = extractFlavorText speciesData\<rparr>]\<rparr>)"
  by (rule process_row_usable [OF assms(1,2,3) fetch_both_result [OF assms(4,5)]])

lemma select_image_fields:
  "select_image pokemonData =
     (case pokemonData of
        None \<Rightarrow> None
      | Some record \<Rightarrow>
          (case sprites record of
             None \<Rightarrow> None
           | Some sprite_set \<Rightarrow>
               (case (case other sprite_set of
                        None \<Rightarrow> None
                      | Some others \<Rightarrow>
                          (case official_artwork others of
                             None \<Rightarrow> None
                           | Some art \<Rightarrow> artwork_front_default art)) of
                  Some url \<Rightarrow> Some url
                | None \<Rightarrow> front_default sprite_set)))"
  by (auto simp: select_image_def official_artwork_url_def basic_sprite_url_def nullish_or_def
      split: option.splits Option.bind_splits)

lemma usable_cases:
  obtains "\<not> usable row"
  | person species extra where "row = person # species # extra" "person \<noteq> []" "species \<noteq> []"
  by (cases row rule: list.exhaust; cases "tl row"; auto simp: usable_def)

lemma datasets_process_row:
  "datasets (process_row E st row) =
     datasets st @ (case row_record E st row of None \<Rightarrow> [] | Some r \<Rightarrow> [r])"
proof (cases row rule: usable_cases)
  case 1
  then show ?thesis by (simp add: process_row_unusable row_record_unusable)
next
  case (2 person species extra)
  obtain ident st1 where r: "resolvePokemonIdentifier E (trim species) st = (ident, st1)"
    by (cases "resolvePokemonIdentifier E (trim species) st")
  obtain fetched st2 where f: "fetch_both E ident st1 = (fetched, st2)"
    by (cases "fetch_both E ident st1")
  have d: "datasets st2 = datasets st"
    using resolve_keeps_datasets [OF r] fetch_both_keeps_datasets [OF f] by simp
  show ?thesis
    unfolding 2(1) process_row_usable [OF 2(2,3) r f] row_record_usable [OF 2(2,3) r f]
    by (simp add: d split: sum.splits prod.splits)
qed

lemma datasets_rows:
  "datasets (foldl (process_row E) st rows) =
     datasets st @ map the (filter (\<lambda>r. r \<noteq> None) (row_records E st rows))"
proof (induction rows arbitrary: st)
  case Nil
  show ?case by simp
next
  case (Cons row rows)
  show ?case
    by (simp add: Cons.IH datasets_process_row split: option.splits)
qed

lemma main_loop:
  assumes "argument args 0 = Some p" "readFile E (path_resolve E p) = Inr csv" "parseCsv csv \<noteq> []"
  shows "main E w args =
    write_output E (argument args 1) (foldl (process_row E) (initial w) (parseCsv csv))"
  using assms by (simp add: main_def Let_def)

lemma write_output_payloads:
  assumes "stdout (write_output E out st) = Some pl \<or> (\<exists>f. (f, pl) \<in> set (files (write_output E out st)))"
  shows "pl = JsonText (datasets st) \<or> pl = SidecarScript (datasets st)"
  using assms by (auto simp: write_output_def exit_with_def Let_def split: option.splits)

lemma initial_fields [simp]:
  "world (initial w) = w"
  "aliasMapPromise (initial w) = None"
  "console (initial w) = []"
  "requests (initial w) = []"
  "datasets (initial w) = []"
  by (simp_all add: initial_def)

lemma process_row_pokemon:
  "datasets (process_row E st row) = datasets st \<or>
   (\<exists>r. datasets (process_row E st row) = datasets st @ [r] \<and>
        pokemon r = capitalizeName (tables E) (trim (row ! 1)))"
proof (cases row rule: usable_cases)
  case 1
  then show ?thesis by (simp add: process_row_unusable)
next
  case (2 person species extra)
  obtain ident st1 where r: "resolvePokemonIdentifier E (trim species) st = (ident, st1)"
    by (cases "resolvePokemonIdentifier E (trim species) st")
  obtain fetched st2 where f: "fetch_both E ident st1 = (fetched, st2)"
    by (cases "fetch_both E ident st1")
  have d: "datasets st2 = datasets st"
    using resolve_keeps_datasets [OF r] fetch_both_keeps_datasets [OF f] by simp
  show ?thesis
    unfolding 2(1) process_row_usable [OF 2(2,3) r f]
    by (cases fetched) (auto simp: d)
qed



lemma main_no_rows:
  assumes "argument args 0 = Some p" "readFile E (path_resolve E p) = Inr csv" "parseCsv csv = []"
  shows "main E w args = exit_with NoDataFound (initial w) []"
  using assms by (simp add: main_def Let_def)

lemma skipped_snoc: "skipped (rows @ [row]) = skipped rows @ [(WarnLevel, SkippingIncompleteRow row)]"
  by (simp add: skipped_def)

lemma rows_unusable:
  "filter usable rows = [] \<Longrightarrow>
   foldl (process_row E) st rows = st\<lparr>console := console st @ skipped rows\<rparr>"
proof (induction rows rule: rev_induct)
  case Nil
  show ?case by (simp add: skipped_def)
next
  case (snoc row rows)
  then have u: "\<not> usable row" and r: "filter usable rows = []"
    by (auto split: if_splits)
  show ?case
    by (simp add: snoc.IH [OF r] process_row_unusable [OF u] log_to_def skipped_snoc)
qed

lemma row_records_unusable:
  "filter usable rows = [] \<Longrightarrow> filter (\<lambda>r. r \<noteq> None) (row_records E st rows) = []"
  by (induction rows arbitrary: st) (auto simp: row_record_unusable split: if_splits)

section \<open>Properties of the alias table and the resolver\<close>

lemma map_of_set_variants:
  "map_of (foldl (\<lambda>m v. if v \<noteq> [] then AList.update (f v) i m else m) m vs) k =
     (if k \<in> f ` {v \<in> set vs. v \<noteq> []} then Some i else map_of m k)"
  by (induction vs arbitrary: m) (auto simp: AList.update_conv')

lemma map_of_add_entry:
  "map_of (add_entry U m e) k =
     (if k \<in> set (alias_keys U e) then Some (entry_id e) else map_of m k)"
  unfolding add_entry_def alias_keys_def map_of_set_variants by simp

lemma map_of_alias_table:
  "map_of (foldl (add_entry U) m data) k =
     (case find (\<lambda>e. k \<in> set (alias_keys U e)) (rev data) of
        Some e \<Rightarrow> Some (entry_id e)
      | None \<Rightarrow> map_of m k)"
proof (induction data rule: rev_induct)
  case Nil
  show ?case by simp
next
  case (snoc e data)
  show ?case by (simp add: map_of_add_entry snoc.IH)
qed

lemma digit_alnum: "d < 10 \<Longrightarrow> is_alnum (0x30 + of_nat d)"
proof -
  assume d: "d < 10"
  have "unat (0x30 + of_nat d :: 16 word) = 48 + d"
    using d by (simp add: unat_word_ariths unat_of_nat)
  then show ?thesis using d by (simp add: is_alnum_def word_le_nat_alt)
qed

lemma string_of_id_alnum: "list_all is_alnum (string_of_id n)"
proof (induction n rule: string_of_id.induct)
  case (1 n)
  show ?case
  proof (cases "n < 10")
    case True
    then show ?thesis by (subst string_of_id.simps) (simp add: digit_alnum)
  next
    case False
    have "n mod 10 < 10" by simp
    then have "is_alnum (0x30 + of_nat (n mod 10))" by (rule digit_alnum)
    with False 1 show ?thesis by (subst string_of_id.simps) simp
  qed
qed

lemma string_of_id_nonempty: "string_of_id n \<noteq> []"
  by (subst string_of_id.simps) simp

lemma no_hyphen_no_adjacent: "hyphen \<notin> set s \<Longrightarrow> no_adjacent_hyphens s"
  by (induction s rule: no_adjacent_hyphens.induct) auto

lemma alnum_canonical:
  assumes "list_all is_alnum s"
  shows "canonical s"
proof -
  have h: "hyphen \<notin> set s" using assms by (auto simp: list_all_iff dest: alnum_not_hyphen)
  have "s \<noteq> [] \<longrightarrow> hd s \<noteq> hyphen \<and> last s \<noteq> hyphen"
    using h hd_in_set [of s] last_in_set [of s] by metis
  moreover have "slug_chars s" using assms by (auto simp: slug_chars_def list_all_iff)
  ultimately show ?thesis using no_hyphen_no_adjacent [OF h] by (simp add: canonical_def)
qed

lemma normalizeName_id_text: "normalizeName U (string_of_id n) = string_of_id n"
  by (rule canonical_fixed [OF alnum_canonical [OF string_of_id_alnum]])

lemma normalizeName_Nil: "normalizeName U [] = []"
  by (simp add: normalizeName_def normalizeNFD_def toLowerCase_def strip_edge_hyphens_def)

lemma alias_keys_set:
  "set (alias_keys U entry) =
     normalizeName U ` ({entry_id entry, english_of entry, french_of entry} - {[]})"
proof -
  have slug: "normalizeName U (slugifyName U (english_of entry)) = normalizeName U (english_of entry)"
    unfolding slugifyName_def by (rule canonical_fixed [OF normalizeName_canonical])
  have ne: "english_of entry \<noteq> []" if "slugifyName U (english_of entry) \<noteq> []"
    using that by (auto simp: slugifyName_def normalizeName_Nil)
  show ?thesis
    using ne by (auto simp: alias_keys_def entry_variants_def slug)
qed

lemma english_of_fields:
  "english_of entry =
     (case entry_name entry of
        None \<Rightarrow> []
      | Some n \<Rightarrow> (case english n of None \<Rightarrow> [] | Some e \<Rightarrow> e))"
  by (simp add: english_of_def split: option.splits)

lemma french_of_fields:
  "french_of entry =
     (case entry_name entry of
        None \<Rightarrow> []
      | Some n \<Rightarrow> (case french n of None \<Rightarrow> [] | Some f \<Rightarrow> f))"
  by (simp add: french_of_def split: option.splits)

lemma getPokemonAliasMap_fulfilled:
  "aliasMapPromise st = Some (Fulfilled m) \<Longrightarrow> getPokemonAliasMap E st = (m, st)"
  by (simp add: getPokemonAliasMap_def getPokemonAliasMap_sync_def promised_map_def)

lemma getPokemonAliasMap_first:
  assumes "aliasMapPromise st = None" and "fetchAliasData E (world st) = (response, w)"
  shows "getPokemonAliasMap E st =
    (case response of
       Inr data \<Rightarrow>
         (foldl (add_entry (tables E)) [] data,
          (send AliasDataRequest st)
            \<lparr>world := w, aliasMapPromise := Some (Fulfilled (foldl (add_entry (tables E)) [] data))\<rparr>)
     | Inl e \<Rightarrow>
         ([],
          (log_to ErrorLevel (AliasTableUnavailable e) (send AliasDataRequest st))
            \<lparr>world := w, aliasMapPromise := Some (Fulfilled [])\<rparr>))"
  using assms
  by (simp add: getPokemonAliasMap_def getPokemonAliasMap_sync_def promised_map_def
      settle_alias_def buildPokemonAliasMap_def send_def log_to_def Let_def split: sum.splits)

lemma resolve_fulfilled:
  assumes "aliasMapPromise st = Some (Fulfilled m)"
  shows "resolvePokemonIdentifier E raw st =
    (case map_of m (normalizeName (tables E) raw) of
       Some i \<Rightarrow> i
     | None \<Rightarrow> fallback (tables E) raw, st)"
  by (simp add: resolvePokemonIdentifier_def getPokemonAliasMap_fulfilled [OF assms] Let_def
      fallback_def split: option.splits)

lemma resolve_first:
  assumes "aliasMapPromise st = None" and "fetchAliasData E (world st) = (Inr data, w)"
  shows "resolvePokemonIdentifier E raw st =
    (case map_of (foldl (add_entry (tables E)) [] data) (normalizeName (tables E) raw) of
       Some i \<Rightarrow> i
     | None \<Rightarrow> fallback (tables E) raw,
     (send AliasDataRequest st)
       \<lparr>world := w, aliasMapPromise := Some (Fulfilled (foldl (add_entry (tables E)) [] data))\<rparr>)"
  by (simp add: resolvePokemonIdentifier_def getPokemonAliasMap_first [OF assms] Let_def
      fallback_def split: option.splits)

lemma resolve_first_failed:
  assumes "aliasMapPromise st = None" and "fetchAliasData E (world st) = (Inl e, w)"
  shows "resolvePokemonIdentifier E raw st =
    (fallback (tables E) raw,
     (log_to ErrorLevel (AliasTableUnavailable e) (send AliasDataRequest st))
       \<lparr>world := w, aliasMapPromise := Some (Fulfilled [])\<rparr>)"
  by (simp add: resolvePokemonIdentifier_def getPokemonAliasMap_first [OF assms] Let_def
      fallback_def)

lemma write_output_stdout:
  "write_output E None st =
     \<lparr>exit_code = 0, final = st, stdout = Some (JsonText (datasets st)), files = []\<rparr>"
  by (simp add: write_output_def)

section \<open>Properties of the memoisation\<close>

lemma alias_fetches_simps [simp]:
  "alias_fetches (log_to l m st) = alias_fetches st"
  "alias_fetches (send AliasDataRequest st) = Suc (alias_fetches st)"
  "alias_fetches (send (PokemonRequest i) st) = alias_fetches st"
  "alias_fetches (send (SpeciesRequest i) st) = alias_fetches st"
  "alias_fetches (st\<lparr>aliasMapPromise := p\<rparr>) = alias_fetches st"
  "alias_fetches (st\<lparr>world := w\<rparr>) = alias_fetches st"
  "alias_fetches (st\<lparr>datasets := d\<rparr>) = alias_fetches st"
  "alias_fetches (initial w) = 0"
  by (simp_all add: alias_fetches_def log_to_def send_def initial_def)

lemma fetched_once_sync: "fetched_once st \<Longrightarrow> fetched_once (getPokemonAliasMap_sync st)"
  by (simp add: fetched_once_def getPokemonAliasMap_sync_def)

lemma sync_sets_promise: "aliasMapPromise (getPokemonAliasMap_sync st) \<noteq> None"
  by (simp add: getPokemonAliasMap_sync_def)

lemma settle_promise_None:
  "aliasMapPromise (settle_alias U r st) = None \<longleftrightarrow> aliasMapPromise st = None"
  by (simp add: settle_alias_def log_to_def split: option.splits promise.splits sum.splits)

lemma settle_fetches: "alias_fetches (settle_alias U r st) = alias_fetches st"
  by (simp add: alias_fetches_def)

lemma fetched_once_settle: "fetched_once st \<Longrightarrow> fetched_once (settle_alias U r st)"
  by (simp add: fetched_once_def settle_promise_None settle_fetches)

lemma fetched_once_step: "fetched_once st \<Longrightarrow> fetched_once (step U st ev)"
  by (cases ev) (simp_all add: step_def fetched_once_sync fetched_once_settle)

lemma fetched_once_events: "fetched_once st \<Longrightarrow> fetched_once (foldl (step U) st evs)"
  by (induction evs arbitrary: st) (simp_all add: fetched_once_step)

lemma promise_after_step:
  "aliasMapPromise (step U st ev) = None \<longleftrightarrow> aliasMapPromise st = None \<and> ev \<noteq> ResolverCall"
  by (cases ev) (simp_all add: step_def sync_sets_promise settle_promise_None)

lemma promise_after_events:
  "aliasMapPromise (foldl (step U) st evs) = None \<longleftrightarrow>
     aliasMapPromise st = None \<and> ResolverCall \<notin> set evs"
proof (induction evs arbitrary: st)
  case Nil
  show ?case by simp
next
  case (Cons ev evs)
  show ?case by (auto simp: Cons.IH promise_after_step)
qed

lemma fetched_once_world: "fetched_once st \<Longrightarrow> fetched_once (st\<lparr>world := w\<rparr>)"
  by (simp add: fetched_once_def)

lemma fetched_once_getPokemonAliasMap:
  "fetched_once st \<Longrightarrow> fetched_once (snd (getPokemonAliasMap E st))"
  by (auto simp: getPokemonAliasMap_def Let_def fetched_once_sync fetched_once_settle
      fetched_once_world split: option.splits promise.splits prod.splits)

lemma fetched_once_resolve:
  "fetched_once st \<Longrightarrow> fetched_once (snd (resolvePokemonIdentifier E raw st))"
proof -
  assume a: "fetched_once st"
  obtain m st1 where g: "getPokemonAliasMap E st = (m, st1)" by (cases "getPokemonAliasMap E st")
  with fetched_once_getPokemonAliasMap [OF a, of E] have "fetched_once st1" by simp
  then show ?thesis
    by (simp add: resolvePokemonIdentifier_def g Let_def split: option.splits)
qed

lemma fetched_once_fetch_both:
  "fetched_once st \<Longrightarrow> fetched_once (snd (fetch_both E i st))"
  by (simp add: fetch_both_def Let_def fetched_once_def split: prod.splits sum.splits)

lemma fetched_once_log: "fetched_once st \<Longrightarrow> fetched_once (log_to l m st)"
  by (simp add: fetched_once_def)

lemma fetched_once_datasets: "fetched_once st \<Longrightarrow> fetched_once (st\<lparr>datasets := d\<rparr>)"
  by (simp add: fetched_once_def)

lemma fetched_once_process_row:
  assumes "fetched_once st"
  shows "fetched_once (process_row E st row)"
proof (cases row rule: usable_cases)
  case 1
  then show ?thesis using assms by (simp add: process_row_unusable fetched_once_log)
next
  case (2 person species extra)
  obtain ident st1 where r: "resolvePokemonIdentifier E (trim species) st = (ident, st1)"
    by (cases "resolvePokemonIdentifier E (trim species) st")
  obtain fetched st2 where f: "fetch_both E ident st1 = (fetched, st2)"
    by (cases "fetch_both E ident st1")
  have "fetched_once st1" using fetched_once_resolve [OF assms, of E "trim species"] r by simp
  then have s2: "fetched_once st2" using fetched_once_fetch_both [of st1 E ident] f by simp
  show ?thesis
    unfolding 2(1) process_row_usable [OF 2(2,3) r f]
    using s2 by (cases fetched) (auto simp: fetched_once_log fetched_once_datasets)
qed

lemma fetched_once_rows: "fetched_once st \<Longrightarrow> fetched_once (foldl (process_row E) st rows)"
  by (induction rows arbitrary: st) (simp_all add: fetched_once_process_row)

lemma fetched_once_initial: "fetched_once (initial w)"
  by (simp add: fetched_once_def)

lemma fetched_once_write_output:
  "fetched_once st \<Longrightarrow> fetched_once (final (write_output E out st))"
  by (simp add: write_output_def exit_with_def Let_def fetched_once_log split: option.splits)

lemma fetched_once_main: "fetched_once (final (main E w args))"
  by (simp add: main_def exit_with_def Let_def fetched_once_log fetched_once_initial
      fetched_once_rows fetched_once_write_output split: option.splits sum.splits)

lemma fetched_once_le: "fetched_once st \<Longrightarrow> alias_fetches st \<le> 1"
  by (simp add: fetched_once_def)

section \<open>The claims\<close>

text \<open>
  C1, as stated, fails. An input file whose only line is \<^verbatim>\<open>Ash\<close> has no row with both
  fields non-empty, yet the run does not fail: the row is skipped with a warning, the
  empty dataset is written and the exit code is 0.
\<close>

theorem zero_usable_rows_counterexample:
  "filter usable (parseCsv (js ''Ash'')) = [] \<and>
   readFile only_ash (path_resolve only_ash (js ''team.csv'')) = Inr (js ''Ash'') \<and>
   exit_code (main only_ash () [js ''team.csv'']) = 0 \<and>
   stdout (main only_ash () [js ''team.csv'']) = Some (JsonText []) \<and>
   console (final (main only_ash () [js ''team.csv''])) =
     [(WarnLevel, SkippingIncompleteRow [js ''Ash''])]"
  by code_simp

text \<open>
  C1, amended. The run fails with \<^verbatim>\<open>No data found in CSV.\<close> and exit code 1, before any
  request and without any output, when the parser yields no row at all, which is when
  every line of the input is blank or a comment. A row that lacks a non-empty person or
  species field still counts as a row: the loop skips it with a warning. When no row is
  usable the loop leaves one warning for each row, sends no request and hands the empty
  dataset to the output step; with no output path given, the run then writes the empty
  dataset to standard output and exits with code 0.
\<close>

theorem no_rows_is_fatal:
  assumes "argument args 0 = Some p" and "readFile E (path_resolve E p) = Inr csv"
  shows "(parseCsv csv = [] \<longrightarrow>
      exit_code (main E w args) = 1 \<and>
      console (final (main E w args)) = [(ErrorLevel, NoDataFound)] \<and>
      stdout (main E w args) = None \<and> files (main E w args) = [] \<and>
      requests (final (main E w args)) = []) \<and>
    (parseCsv csv = []) =
      list_all (\<lambda>line. trim line = [] \<or> startsWith_hash (trim line)) (split_lines csv) \<and>
    (\<not> usable row \<longrightarrow>
      process_row E st row = log_to WarnLevel (SkippingIncompleteRow row) st) \<and>
    (parseCsv csv \<noteq> [] \<longrightarrow> filter usable (parseCsv csv) = [] \<longrightarrow>
      foldl (process_row E) (initial w) (parseCsv csv) =
        \<lparr>world = w, aliasMapPromise = None,
         console = map (\<lambda>row. (WarnLevel, SkippingIncompleteRow row)) (parseCsv csv),
         requests = [], datasets = []\<rparr> \<and>
      main E w args =
        write_output E (argument args 1)
          \<lparr>world = w, aliasMapPromise = None,
           console = map (\<lambda>row. (WarnLevel, SkippingIncompleteRow row)) (parseCsv csv),
           requests = [], datasets = []\<rparr> \<and>
      (argument args 1 = None \<longrightarrow>
         exit_code (main E w args) = 0 \<and> stdout (main E w args) = Some (JsonText []) \<and>
         files (main E w args) = [] \<and>
         console (final (main E w args)) =
           map (\<lambda>row. (WarnLevel, SkippingIncompleteRow row)) (parseCsv csv)))"
proof (intro conjI impI)
  assume e: "parseCsv csv = []"
  note m = main_no_rows [OF assms e, of w]
  show "exit_code (main E w args) = 1" by (simp add: m exit_with_def)
  show "console (final (main E w args)) = [(ErrorLevel, NoDataFound)]"
    by (simp add: m exit_with_def)
  show "stdout (main E w args) = None" by (simp add: m exit_with_def)
  show "files (main E w args) = []" by (simp add: m exit_with_def)
  show "requests (final (main E w args)) = []" by (simp add: m exit_with_def)
next
  show "(parseCsv csv = []) =
      list_all (\<lambda>line. trim line = [] \<or> startsWith_hash (trim line)) (split_lines csv)"
    by (rule parseCsv_empty)
next
  assume "\<not> usable row"
  then show "process_row E st row = log_to WarnLevel (SkippingIncompleteRow row) st"
    by (rule process_row_unusable)
next
  assume r: "parseCsv csv \<noteq> []" and u: "filter usable (parseCsv csv) = []"
  show l: "foldl (process_row E) (initial w) (parseCsv csv) =
      \<lparr>world = w, aliasMapPromise = None,
       console = map (\<lambda>row. (WarnLevel, SkippingIncompleteRow row)) (parseCsv csv),
       requests = [], datasets = []\<rparr>"
    by (simp add: rows_unusable [OF u] initial_def skipped_def)
  show m: "main E w args =
      write_output E (argument args 1)
        \<lparr>world = w, aliasMapPromise = None,
         console = map (\<lambda>row. (WarnLevel, SkippingIncompleteRow row)) (parseCsv csv),
         requests = [], datasets = []\<rparr>"
    unfolding main_loop [OF assms r] l ..
  {
    assume o: "argument args 1 = None"
    show "exit_code (main E w args) = 0" unfolding m o write_output_stdout by simp
    show "stdout (main E w args) = Some (JsonText [])" unfolding m o write_output_stdout by simp
    show "files (main E w args) = []" unfolding m o write_output_stdout by simp
    show "console (final (main E w args)) =
        map (\<lambda>row. (WarnLevel, SkippingIncompleteRow row)) (parseCsv csv)"
      unfolding m o write_output_stdout by simp
  }
qed

theorem no_rows_is_fatal_witness:
  "parseCsv (js ''# team'' @ [CR, LF, LF] @ js ''  '') = [] \<and>
   split_lines (js ''# team'' @ [CR, LF, LF] @ js ''  '') = [js ''# team'', [], js ''  ''] \<and>
   exit_code (main only_comments () [js ''team.csv'']) = 1 \<and>
   console (final (main only_comments () [js ''team.csv''])) = [(ErrorLevel, NoDataFound)] \<and>
   stdout (main only_comments () [js ''team.csv'']) = None \<and>
   files (main only_comments () [js ''team.csv'']) = [] \<and>
   parseCsv (js ''Ash'') = [[js ''Ash'']] \<and> \<not> usable [js ''Ash''] \<and>
   exit_code (main only_ash () [js ''team.csv'']) = 0 \<and>
   stdout (main only_ash () [js ''team.csv'']) = Some (JsonText []) \<and>
   console (final (main only_ash () [js ''team.csv''])) =
     [(WarnLevel, SkippingIncompleteRow [js ''Ash''])] \<and>
   process_row only_ash (initial ()) [js ''Ash''] =
     log_to WarnLevel (SkippingIncompleteRow [js ''Ash'']) (initial ())"
proof -
  let ?c = "js ''# team'' @ [CR, LF, LF] @ js ''  ''"
  have a: "argument [js ''team.csv''] 0 = Some (js ''team.csv'')"
    "argument [js ''team.csv''] 1 = None"
    by code_simp+
  have r: "readFile only_comments (path_resolve only_comments (js ''team.csv'')) = Inr ?c"
    by (simp add: only_comments_def stub_def)
  have r2: "readFile only_ash (path_resolve only_ash (js ''team.csv'')) = Inr (js ''Ash'')"
    by (simp add: only_ash_def stub_def)
  have e: "parseCsv ?c = []" by code_simp
  have s: "split_lines ?c = [js ''# team'', [], js ''  '']" by code_simp
  have p: "parseCsv (js ''Ash'') = [[js ''Ash'']]" by code_simp
  have u: "parseCsv (js ''Ash'') \<noteq> []" "filter usable (parseCsv (js ''Ash'')) = []"
    by code_simp+
  have nu: "\<not> usable [js ''Ash'']" by code_simp
  note T1 = no_rows_is_fatal [OF a(1) r, where w = "()" and row = "[]" and st = "initial ()"]
  note T2 = no_rows_is_fatal [OF a(1) r2, where w = "()" and row = "[js ''Ash'']"
      and st = "initial ()"]
  from T1 [THEN conjunct1, THEN mp, OF e]
  have t1: "exit_code (main only_comments () [js ''team.csv'']) = 1 \<and>
      console (final (main only_comments () [js ''team.csv''])) = [(ErrorLevel, NoDataFound)] \<and>
      stdout (main only_comments () [js ''team.csv'']) = None \<and>
      files (main only_comments () [js ''team.csv'']) = [] \<and>
      requests (final (main only_comments () [js ''team.csv''])) = []" .
  from T2 [THEN conjunct2, THEN conjunct2, THEN conjunct1, THEN mp, OF nu]
  have t3: "process_row only_ash (initial ()) [js ''Ash''] =
      log_to WarnLevel (SkippingIncompleteRow [js ''Ash'']) (initial ())" .
  from T2 [THEN conjunct2, THEN conjunct2, THEN conjunct2, THEN mp, THEN mp, OF u(1) u(2),
      THEN conjunct2, THEN conjunct2, THEN mp, OF a(2)]
  have t2: "exit_code (main only_ash () [js ''team.csv'']) = 0 \<and>
      stdout (main only_ash () [js ''team.csv'']) = Some (JsonText []) \<and>
      files (main only_ash () [js ''team.csv'']) = [] \<and>
      console (final (main only_ash () [js ''team.csv''])) =
        [(WarnLevel, SkippingIncompleteRow [js ''Ash''])]"
    by (simp only: p list.map)
  from t1 t2 t3 e s p nu show ?thesis by (simp only: simp_thms)
qed

text \<open>
  C2. With the alias table settled, a name whose normalised form is a key of the table
  resolves to the identifier stored under it, and any other name to its slug, or to
  itself when the slug is empty. On the first call the table is built from the fetched
  records: a key maps to the id text of the last record that contributes it. The keys of
  a record are the normalised forms of its id text, of its English name and of its French
  name, each when it is not empty; the slug of the English name normalises to the key of
  the English name. The id text of an integer below \<open>10 ^ 21\<close> is its own key.
\<close>

theorem resolve_by_alias_or_slug:
  "(aliasMapPromise st = Some (Fulfilled m) \<longrightarrow>
      (map_of m (normalizeName (tables E) raw) = Some i \<longrightarrow>
         resolvePokemonIdentifier E raw st = (i, st)) \<and>
      (map_of m (normalizeName (tables E) raw) = None \<longrightarrow>
         resolvePokemonIdentifier E raw st =
           (if slugifyName (tables E) raw \<noteq> [] then slugifyName (tables E) raw else raw, st))) \<and>
   (aliasMapPromise st = None \<longrightarrow> fetchAliasData E (world st) = (Inr data, w) \<longrightarrow>
      aliasMapPromise (snd (resolvePokemonIdentifier E raw st)) =
        Some (Fulfilled (foldl (add_entry (tables E)) [] data)) \<and>
      fst (resolvePokemonIdentifier E raw st) =
        (case find (\<lambda>entry. normalizeName (tables E) raw \<in> set (alias_keys (tables E) entry))
                (rev data) of
           Some entry \<Rightarrow> entry_id entry
         | None \<Rightarrow>
             if slugifyName (tables E) raw \<noteq> [] then slugifyName (tables E) raw else raw)) \<and>
   map_of (foldl (add_entry U) [] data) key =
     (case find (\<lambda>entry. key \<in> set (alias_keys U entry)) (rev data) of
        Some entry \<Rightarrow> Some (entry_id entry)
      | None \<Rightarrow> None) \<and>
   set (alias_keys U entry) =
     normalizeName U `
       ({entry_id entry,
         case entry_name entry of
           None \<Rightarrow> []
         | Some names \<Rightarrow> (case english names of None \<Rightarrow> [] | Some text \<Rightarrow> text),
         case entry_name entry of
           None \<Rightarrow> []
         | Some names \<Rightarrow> (case french names of None \<Rightarrow> [] | Some text \<Rightarrow> text)} - {[]}) \<and>
   set (alias_keys U \<lparr>entry_id = id_text,
                       entry_name = Some \<lparr>english = Some en, french = Some fr\<rparr>\<rparr>) =
     normalizeName U ` ({id_text, en, fr} - {[]}) \<and>
   (n < 10 ^ 21 \<longrightarrow> normalizeName U (string_of_id n) = string_of_id n) \<and>
   normalizeName U (slugifyName U en) = normalizeName U en"
proof (intro conjI impI)
  assume f: "aliasMapPromise st = Some (Fulfilled m)"
  show "resolvePokemonIdentifier E raw st = (i, st)"
    if "map_of m (normalizeName (tables E) raw) = Some i"
    using that by (simp add: resolve_fulfilled [OF f])
  show "resolvePokemonIdentifier E raw st =
      (if slugifyName (tables E) raw \<noteq> [] then slugifyName (tables E) raw else raw, st)"
    if "map_of m (normalizeName (tables E) raw) = None"
    using that by (simp add: resolve_fulfilled [OF f] fallback_def)
next
  assume a: "aliasMapPromise st = None" "fetchAliasData E (world st) = (Inr data, w)"
  show "aliasMapPromise (snd (resolvePokemonIdentifier E raw st)) =
      Some (Fulfilled (foldl (add_entry (tables E)) [] data))"
    by (simp add: resolve_first [OF a])
  show "fst (resolvePokemonIdentifier E raw st) =
      (case find (\<lambda>entry. normalizeName (tables E) raw \<in> set (alias_keys (tables E) entry))
              (rev data) of
         Some entry \<Rightarrow> entry_id entry
       | None \<Rightarrow>
           if slugifyName (tables E) raw \<noteq> [] then slugifyName (tables E) raw else raw)"
    by (simp add: resolve_first [OF a] map_of_alias_table fallback_def split: option.splits)
next
  show "map_of (foldl (add_entry U) [] data) key =
     (case find (\<lambda>entry. key \<in> set (alias_keys U entry)) (rev data) of
        Some entry \<Rightarrow> Some (entry_id entry)
      | None \<Rightarrow> None)"
    by (simp add: map_of_alias_table split: option.splits)
  show "set (alias_keys U entry) =
     normalizeName U `
       ({entry_id entry,
         case entry_name entry of
           None \<Rightarrow> []
         | Some names \<Rightarrow> (case english names of None \<Rightarrow> [] | Some text \<Rightarrow> text),
         case entry_name entry of
           None \<Rightarrow> []
         | Some names \<Rightarrow> (case french names of None \<Rightarrow> [] | Some text \<Rightarrow> text)} - {[]})"
    by (simp only: alias_keys_set english_of_fields french_of_fields)
  show "set (alias_keys U \<lparr>entry_id = id_text,
                       entry_name = Some \<lparr>english = Some en, french = Some fr\<rparr>\<rparr>) =
     normalizeName U ` ({id_text, en, fr} - {[]})"
    by (simp add: alias_keys_set english_of_fields french_of_fields)
  show "normalizeName U (string_of_id n) = string_of_id n"
    by (rule normalizeName_id_text)
  show "normalizeName U (slugifyName U en) = normalizeName U en"
    unfolding slugifyName_def by (rule canonical_fixed [OF normalizeName_canonical])
qed

theorem resolve_by_alias_or_slug_witness:
  "fst (resolvePokemonIdentifier two_names (js ''PIKACHU'') (initial ())) = js ''25'' \<and>
   fst (resolvePokemonIdentifier two_names (js ''Eevee'') (initial ())) = js ''133'' \<and>
   fst (resolvePokemonIdentifier two_names (js ''EVOLI'') (initial ())) = js ''133'' \<and>
   fst (resolvePokemonIdentifier two_names (js ''133'') (initial ())) = js ''133'' \<and>
   fst (resolvePokemonIdentifier two_names (js ''Mr. Mime'') (initial ())) = js ''mr-mime'' \<and>
   set (alias_keys ascii_tables eevee_entry) = {js ''133'', js ''eevee'', js ''evoli''} \<and>
   string_of_id 133 = js ''133'' \<and> normalizeName ascii_tables (js ''133'') = js ''133'' \<and>
   resolvePokemonIdentifier (stub True) (js ''25'')
       ((initial ())\<lparr>aliasMapPromise := Some (Fulfilled [(js ''25'', js ''25''), (js ''pikachu'', js ''25'')])\<rparr>) =
     (js ''25'', (initial ())\<lparr>aliasMapPromise := Some (Fulfilled [(js ''25'', js ''25''), (js ''pikachu'', js ''25'')])\<rparr>) \<and>
   fst (resolvePokemonIdentifier (stub True) (js ''???'')
       ((initial ())\<lparr>aliasMapPromise := Some (Fulfilled [(js ''25'', js ''25''), (js ''pikachu'', js ''25'')])\<rparr>)) =
     js ''???''"
proof -
  let ?m = "[(js ''25'', js ''25''), (js ''pikachu'', js ''25'')]"
  let ?st = "(initial ())\<lparr>aliasMapPromise := Some (Fulfilled ?m)\<rparr>"
  let ?T = "tables two_names"
  let ?data = "[pikachu_entry, eevee_entry]"
  have p: "aliasMapPromise ?st = Some (Fulfilled ?m)" by simp
  have n: "aliasMapPromise (initial () :: unit state) = None" by simp
  have a: "fetchAliasData two_names (world (initial ())) = (Inr ?data, ())"
    by (simp add: two_names_def)
  have k1: "map_of ?m (normalizeName (tables (stub True)) (js ''25'')) = Some (js ''25'')"
    by code_simp
  have k2: "map_of ?m (normalizeName (tables (stub True)) (js ''???'')) = None"
    by code_simp
  have s2: "(if slugifyName (tables (stub True)) (js ''???'') \<noteq> []
      then slugifyName (tables (stub True)) (js ''???'') else js ''???'') = js ''???''"
    by code_simp
  have f1: "(case find (\<lambda>entry. normalizeName ?T (js ''PIKACHU'') \<in> set (alias_keys ?T entry))
          (rev ?data) of
        Some entry \<Rightarrow> entry_id entry
      | None \<Rightarrow> if slugifyName ?T (js ''PIKACHU'') \<noteq> []
          then slugifyName ?T (js ''PIKACHU'') else js ''PIKACHU'') = js ''25''"
    by code_simp
  have f2: "(case find (\<lambda>entry. normalizeName ?T (js ''Eevee'') \<in> set (alias_keys ?T entry))
          (rev ?data) of
        Some entry \<Rightarrow> entry_id entry
      | None \<Rightarrow> if slugifyName ?T (js ''Eevee'') \<noteq> []
          then slugifyName ?T (js ''Eevee'') else js ''Eevee'') = js ''133''"
    by code_simp
  have f3: "(case find (\<lambda>entry. normalizeName ?T (js ''EVOLI'') \<in> set (alias_keys ?T entry))
          (rev ?data) of
        Some entry \<Rightarrow> entry_id entry
      | None \<Rightarrow> if slugifyName ?T (js ''EVOLI'') \<noteq> []
          then slugifyName ?T (js ''EVOLI'') else js ''EVOLI'') = js ''133''"
    by code_simp
  have f4: "(case find (\<lambda>entry. normalizeName ?T (js ''133'') \<in> set (alias_keys ?T entry))
          (rev ?data) of
        Some entry \<Rightarrow> entry_id entry
      | None \<Rightarrow> if slugifyName ?T (js ''133'') \<noteq> []
          then slugifyName ?T (js ''133'') else js ''133'') = js ''133''"
    by code_simp
  have f5: "(case find (\<lambda>entry. normalizeName ?T (js ''Mr. Mime'') \<in> set (alias_keys ?T entry))
          (rev ?data) of
        Some entry \<Rightarrow> entry_id entry
      | None \<Rightarrow> if slugifyName ?T (js ''Mr. Mime'') \<noteq> []
          then slugifyName ?T (js ''Mr. Mime'') else js ''Mr. Mime'') = js ''mr-mime''"
    by code_simp
  have t1: "fst (resolvePokemonIdentifier two_names (js ''PIKACHU'') (initial ())) = js ''25''"
    using resolve_by_alias_or_slug [where E = two_names and st = "initial ()"
      and raw = "js ''PIKACHU''"
      and data = ?data and w = "()" and m = "[]" and i = "[]" and U = ascii_tables
      and key = "[]" and entry = eevee_entry and id_text = "js ''133''" and en = "js ''Eevee''"
      and fr = "js ''Evoli''" and n = 133,
      THEN conjunct2, THEN conjunct1, rule_format, OF n a, THEN conjunct2]
    by (simp only: f1)
  have t2: "fst (resolvePokemonIdentifier two_names (js ''Eevee'') (initial ())) = js ''133''"
    using resolve_by_alias_or_slug [where E = two_names and st = "initial ()"
      and raw = "js ''Eevee''"
      and data = ?data and w = "()" and m = "[]" and i = "[]" and U = ascii_tables
      and key = "[]" and entry = eevee_entry and id_text = "js ''133''" and en = "js ''Eevee''"
      and fr = "js ''Evoli''" and n = 133,
      THEN conjunct2, THEN conjunct1, rule_format, OF n a, THEN conjunct2]
    by (simp only: f2)
  have t3: "fst (resolvePokemonIdentifier two_names (js ''EVOLI'') (initial ())) = js ''133''"
    using resolve_by_alias_or_slug [where E = two_names and st = "initial ()"
      and raw = "js ''EVOLI''"
      and data = ?data and w = "()" and m = "[]" and i = "[]" and U = ascii_tables
      and key = "[]" and entry = eevee_entry and id_text = "js ''133''" and en = "js ''Eevee''"
      and fr = "js ''Evoli''" and n = 133,
      THEN conjunct2, THEN conjunct1, rule_format, OF n a, THEN conjunct2]
    by (simp only: f3)
  have t4: "fst (resolvePokemonIdentifier two_names (js ''133'') (initial ())) = js ''133''"
    using resolve_by_alias_or_slug [where E = two_names and st = "initial ()"
      and raw = "js ''133''"
      and data = ?data and w = "()" and m = "[]" and i = "[]" and U = ascii_tables
      and key = "[]" and entry = eevee_entry and id_text = "js ''133''" and en = "js ''Eevee''"
      and fr = "js ''Evoli''" and n = 133,
      THEN conjunct2, THEN conjunct1, rule_format, OF n a, THEN conjunct2]
    by (simp only: f4)
  have t5: "fst (resolvePokemonIdentifier two_names (js ''Mr. Mime'') (initial ())) = js ''mr-mime''"
    using resolve_by_alias_or_slug [where E = two_names and st = "initial ()"
      and raw = "js ''Mr. Mime''"
      and data = ?data and w = "()" and m = "[]" and i = "[]" and U = ascii_tables
      and key = "[]" and entry = eevee_entry and id_text = "js ''133''" and en = "js ''Eevee''"
      and fr = "js ''Evoli''" and n = 133,
      THEN conjunct2, THEN conjunct1, rule_format, OF n a, THEN conjunct2]
    by (simp only: f5)
  note K = resolve_by_alias_or_slug [where E = two_names and st = "initial ()"
      and data = ?data and w = "()" and m = "[]" and i = "[]" and U = ascii_tables
      and key = "[]" and entry = eevee_entry and id_text = "js ''133''" and en = "js ''Eevee''"
      and fr = "js ''Evoli''" and n = 133 and raw = "[]",
      THEN conjunct2, THEN conjunct2, THEN conjunct2]
  have img: "normalizeName ascii_tables ` ({js ''133'', js ''Eevee'', js ''Evoli''} - {[]}) =
      {js ''133'', js ''eevee'', js ''evoli''}"
  proof -
    have "{js ''133'', js ''Eevee'', js ''Evoli''} - {[]} = {js ''133'', js ''Eevee'', js ''Evoli''}"
      by (simp add: js_def)
    moreover have "normalizeName ascii_tables (js ''133'') = js ''133''"
      "normalizeName ascii_tables (js ''Eevee'') = js ''eevee''"
      "normalizeName ascii_tables (js ''Evoli'') = js ''evoli''"
      by code_simp+
    ultimately show ?thesis by simp
  qed
  have ee: "eevee_entry = \<lparr>entry_id = js ''133'',
      entry_name = Some \<lparr>english = Some (js ''Eevee''), french = Some (js ''Evoli'')\<rparr>\<rparr>"
    by (simp add: eevee_entry_def)
  from K [THEN conjunct2, THEN conjunct1]
  have t6: "set (alias_keys ascii_tables eevee_entry) = {js ''133'', js ''eevee'', js ''evoli''}"
    by (simp only: ee [symmetric] img)
  have d: "string_of_id 133 = js ''133''" by code_simp
  have b: "(133::nat) < 10 ^ 21" by simp
  from K [THEN conjunct2, THEN conjunct2, THEN conjunct1, rule_format, OF b]
  have t7: "normalizeName ascii_tables (js ''133'') = js ''133''" by (simp only: d)
  from resolve_by_alias_or_slug [where E = "stub True" and st = ?st and raw = "js ''25''"
      and m = ?m and i = "js ''25''" and data = "[]" and w = "()" and U = ascii_tables
      and key = "[]" and entry = eevee_entry and id_text = "[]" and en = "[]" and fr = "[]"
      and n = 0, THEN conjunct1, rule_format, OF p, THEN conjunct1, rule_format, OF k1]
  have t8: "resolvePokemonIdentifier (stub True) (js ''25'') ?st = (js ''25'', ?st)" .
  from resolve_by_alias_or_slug [where E = "stub True" and st = ?st and raw = "js ''???''"
      and m = ?m and i = "[]" and data = "[]" and w = "()" and U = ascii_tables
      and key = "[]" and entry = eevee_entry and id_text = "[]" and en = "[]" and fr = "[]"
      and n = 0, THEN conjunct1, rule_format, OF p, THEN conjunct2, rule_format, OF k2]
  have "resolvePokemonIdentifier (stub True) (js ''???'') ?st =
      (if slugifyName (tables (stub True)) (js ''???'') \<noteq> []
       then slugifyName (tables (stub True)) (js ''???'') else js ''???'', ?st)" .
  then have t9: "fst (resolvePokemonIdentifier (stub True) (js ''???'') ?st) = js ''???''"
    by (simp only: s2 fst_conv)
  from t1 t2 t3 t4 t5 t6 d t7 t8 t9 show ?thesis by (simp only: simp_thms)
qed

text \<open>
  C3. The dataset after the loop is the dataset before it followed by the records of the
  rows that were processed without error, one each, in the order of the input. For a
  complete row, when the request for the primary record is rejected, or the request for
  the species record, or both, the row has no record, the dataset stays as it was, and
  the loop body ends in a state that differs from the one after the two requests by one
  line on the error stream, naming the species and the rejection. When both requests are
  fulfilled the row's record is appended. Whatever the run writes, to standard output or
  to a file, carries exactly the list of the records of the successful rows.
\<close>

theorem dataset_omits_failed_rows:
  fixes E :: "'w env" and person species :: jsstring and extra :: "jsstring list"
    and st1 :: "'w state" and w2 :: 'w and i :: jsstring
  defines "row \<equiv> person # species # extra"
    and "st2 \<equiv> (send (SpeciesRequest i) (send (PokemonRequest i) st1))\<lparr>world := w2\<rparr>"
  shows
  "datasets (foldl (process_row E) st rows) =
     datasets st @ map the (filter (\<lambda>r. r \<noteq> None) (row_records E st rows)) \<and>
   (person \<noteq> [] \<longrightarrow> species \<noteq> [] \<longrightarrow>
    resolvePokemonIdentifier E (trim species) st = (i, st1) \<longrightarrow>
    fetchPokemon E i (world st1) = (r1, w1) \<longrightarrow> fetchSpecies E i w1 = (r2, w2) \<longrightarrow>
      (r1 = Inl e1 \<longrightarrow> r2 = Inr speciesData \<longrightarrow>
         row_record E st row = None \<and> datasets (process_row E st row) = datasets st \<and>
         process_row E st row = log_to ErrorLevel (FailedToFetch species e1) st2) \<and>
      (r1 = Inr pokemonData \<longrightarrow> r2 = Inl e2 \<longrightarrow>
         row_record E st row = None \<and> datasets (process_row E st row) = datasets st \<and>
         process_row E st row = log_to ErrorLevel (FailedToFetch species e2) st2) \<and>
      (r1 = Inl e1 \<longrightarrow> r2 = Inl e2 \<longrightarrow>
         row_record E st row = None \<and> datasets (process_row E st row) = datasets st \<and>
         process_row E st row =
           log_to ErrorLevel
             (FailedToFetch species (if species_rejects_first E i (world st1) then e2 else e1))
             st2) \<and>
      (r1 = Inr pokemonData \<longrightarrow> r2 = Inr speciesData \<longrightarrow>
         row_record E st row =
           Some \<lparr>name = trim person,
                 pokemon = capitalizeName (tables E) (trim species),
                 image = select_image pokemonData,
                 description = extractFlavorText speciesData\<rparr> \<and>
         datasets (process_row E st row) =
           datasets st @
             [\<lparr>name = trim person,
               pokemon = capitalizeName (tables E) (trim species),
               image = select_image pokemonData,
               description = extractFlavorText speciesData\<rparr>])) \<and>
   (argument args 0 = Some p \<longrightarrow> readFile E (path_resolve E p) = Inr csv \<longrightarrow>
    parseCsv csv \<noteq> [] \<longrightarrow>
    stdout (main E w args) = Some pl \<or> (\<exists>f. (f, pl) \<in> set (files (main E w args))) \<longrightarrow>
      pl = JsonText (map the (filter (\<lambda>r. r \<noteq> None)
             (row_records E (initial w) (parseCsv csv)))) \<or>
      pl = SidecarScript (map the (filter (\<lambda>r. r \<noteq> None)
             (row_records E (initial w) (parseCsv csv)))))"
proof (intro conjI impI)
  show "datasets (foldl (process_row E) st rows) =
     datasets st @ map the (filter (\<lambda>r. r \<noteq> None) (row_records E st rows))"
    by (rule datasets_rows)
next
  assume a: "argument args 0 = Some p" "readFile E (path_resolve E p) = Inr csv"
    "parseCsv csv \<noteq> []"
    and w: "stdout (main E w args) = Some pl \<or> (\<exists>f. (f, pl) \<in> set (files (main E w args)))"
  from write_output_payloads [OF w [unfolded main_loop [OF a]]]
  show "pl = JsonText (map the (filter (\<lambda>r. r \<noteq> None)
             (row_records E (initial w) (parseCsv csv)))) \<or>
      pl = SidecarScript (map the (filter (\<lambda>r. r \<noteq> None)
             (row_records E (initial w) (parseCsv csv))))"
    by (simp add: datasets_rows)
next
  assume a: "person \<noteq> []" "species \<noteq> []"
    "resolvePokemonIdentifier E (trim species) st = (i, st1)"
    "fetchPokemon E i (world st1) = (r1, w1)" "fetchSpecies E i w1 = (r2, w2)"
  note p = process_row_requests [OF a, of extra, folded row_def st2_def]
  note r = row_record_requests [OF a, of extra, folded row_def]
  {
    assume "r1 = Inl e1" "r2 = Inr speciesData"
    then show "row_record E st row = None" by (simp add: r)
    from \<open>r1 = Inl e1\<close> \<open>r2 = Inr speciesData\<close>
    show q: "process_row E st row = log_to ErrorLevel (FailedToFetch species e1) st2"
      by (simp add: p)
    show "datasets (process_row E st row) = datasets st"
      unfolding q st2_def using resolve_keeps_datasets [OF a(3)] by simp
  }
  {
    assume "r1 = Inr pokemonData" "r2 = Inl e2"
    then show "row_record E st row = None" by (simp add: r)
    from \<open>r1 = Inr pokemonData\<close> \<open>r2 = Inl e2\<close>
    show q: "process_row E st row = log_to ErrorLevel (FailedToFetch species e2) st2"
      by (simp add: p)
    show "datasets (process_row E st row) = datasets st"
      unfolding q st2_def using resolve_keeps_datasets [OF a(3)] by simp
  }
  {
    assume "r1 = Inl e1" "r2 = Inl e2"
    then show "row_record E st row = None" by (simp add: r)
    from \<open>r1 = Inl e1\<close> \<open>r2 = Inl e2\<close>
    show q: "process_row E st row =
        log_to ErrorLevel
          (FailedToFetch species (if species_rejects_first E i (world st1) then e2 else e1)) st2"
      by (simp add: p)
    show "datasets (process_row E st row) = datasets st"
      unfolding q st2_def using resolve_keeps_datasets [OF a(3)] by simp
  }
  {
    assume "r1 = Inr pokemonData" "r2 = Inr speciesData"
    then show "row_record E st row =
        Some \<lparr>name = trim person,
              pokemon = capitalizeName (tables E) (trim species),
              image = select_image pokemonData,
              description = extractFlavorText speciesData\<rparr>"
      by (simp add: r)
    from \<open>r1 = Inr pokemonData\<close> \<open>r2 = Inr speciesData\<close>
    show "datasets (process_row E st row) =
        datasets st @
          [\<lparr>name = trim person,
            pokemon = capitalizeName (tables E) (trim species),
            image = select_image pokemonData,
            description = extractFlavorText speciesData\<rparr>]"
      by (simp add: p)
  }
qed


theorem dataset_omits_failed_rows_witness:
  "row_records (stub True) (initial ()) (parseCsv team_csv) = [Some ash_record, None] \<and>
   datasets (foldl (process_row (stub True)) (initial ()) (parseCsv team_csv)) = [ash_record] \<and>
   stdout (main (stub True) () [js ''team.csv'']) = Some (JsonText [ash_record]) \<and>
   (row_record species_down (initial ()) [js ''Ash'', js ''Pikachu''] = None \<and>
    datasets (process_row species_down (initial ()) [js ''Ash'', js ''Pikachu'']) = [] \<and>
    console (process_row species_down (initial ()) [js ''Ash'', js ''Pikachu'']) =
      [(ErrorLevel, FailedToFetch (js ''Pikachu'') timeout_error)]) \<and>
   (row_record pokemon_down (initial ()) [js ''Ash'', js ''Pikachu''] = None \<and>
    datasets (process_row pokemon_down (initial ()) [js ''Ash'', js ''Pikachu'']) = [] \<and>
    console (process_row pokemon_down (initial ()) [js ''Ash'', js ''Pikachu'']) =
      [(ErrorLevel, FailedToFetch (js ''Pikachu'') timeout_error)]) \<and>
   (row_record both_down (initial ()) [js ''Ash'', js ''Pikachu''] = None \<and>
    datasets (process_row both_down (initial ()) [js ''Ash'', js ''Pikachu'']) = [] \<and>
    console (process_row both_down (initial ()) [js ''Ash'', js ''Pikachu'']) =
      [(ErrorLevel, FailedToFetch (js ''Pikachu'') timeout_error)]) \<and>
   datasets (process_row (stub True) (initial ()) [js ''Ash'', js ''Pikachu'']) = [ash_record]"
proof -
  have h1: "js ''Ash'' \<noteq> []" and h2: "js ''Pikachu'' \<noteq> []" by (simp_all add: js_def)

  have sd: "row_record species_down (initial ()) [js ''Ash'', js ''Pikachu''] = None \<and>
      datasets (process_row species_down (initial ()) [js ''Ash'', js ''Pikachu'']) = [] \<and>
      console (process_row species_down (initial ()) [js ''Ash'', js ''Pikachu'']) =
        [(ErrorLevel, FailedToFetch (js ''Pikachu'') timeout_error)]"
  proof -
    define r where "r = resolvePokemonIdentifier species_down (trim (js ''Pikachu'')) (initial ())"
    have "fst r = js ''25''" unfolding r_def by code_simp
    then have hr: "resolvePokemonIdentifier species_down (trim (js ''Pikachu'')) (initial ()) =
        (js ''25'', snd r)"
      unfolding r_def by (simp add: prod_eq_iff)
    have c: "console (snd r) = []" unfolding r_def by code_simp
    have hp: "fetchPokemon species_down (js ''25'') (world (snd r)) = (Inr (Some pikachu_data), ())"
      unfolding r_def by code_simp
    have hs: "fetchSpecies species_down (js ''25'') () = (Inl timeout_error, ())"
      by code_simp
    note T = dataset_omits_failed_rows [where E = "species_down" and st = "initial ()"
        and person = "js ''Ash''" and species = "js ''Pikachu''" and extra = "[]"
        and i = "js ''25''" and ?st1.0 = "snd r" and ?r1.0 = "Inr (Some pikachu_data)" and ?w1.0 = "()"
        and ?r2.0 = "Inl timeout_error" and ?w2.0 = "()" and rows = "[]" and args = "[]" and p = "[]"
        and csv = "[]" and w = "()" and pl = "JsonText []" and pokemonData = "Some pikachu_data" and ?e2.0 = timeout_error and ?e1.0 = timeout_error and speciesData = None]
    note U = T [THEN conjunct2, THEN conjunct1, rule_format, OF h1 h2 hr hp hs]
    note V = U [THEN conjunct2, THEN conjunct1, rule_format, OF refl refl]
    have cons: "console (process_row species_down (initial ()) [js ''Ash'', js ''Pikachu'']) =
        [(ErrorLevel, FailedToFetch (js ''Pikachu'') timeout_error)]"
      unfolding V [THEN conjunct2, THEN conjunct2] by (simp add: c)
    show ?thesis
      by (simp only: V [THEN conjunct1] V [THEN conjunct2, THEN conjunct1] cons
          initial_fields simp_thms)
  qed

  have pd: "row_record pokemon_down (initial ()) [js ''Ash'', js ''Pikachu''] = None \<and>
      datasets (process_row pokemon_down (initial ()) [js ''Ash'', js ''Pikachu'']) = [] \<and>
      console (process_row pokemon_down (initial ()) [js ''Ash'', js ''Pikachu'']) =
        [(ErrorLevel, FailedToFetch (js ''Pikachu'') timeout_error)]"
  proof -
    define r where "r = resolvePokemonIdentifier pokemon_down (trim (js ''Pikachu'')) (initial ())"
    have "fst r = js ''25''" unfolding r_def by code_simp
    then have hr: "resolvePokemonIdentifier pokemon_down (trim (js ''Pikachu'')) (initial ()) =
        (js ''25'', snd r)"
      unfolding r_def by (simp add: prod_eq_iff)
    have c: "console (snd r) = []" unfolding r_def by code_simp
    have hp: "fetchPokemon pokemon_down (js ''25'') (world (snd r)) = (Inl timeout_error, ())"
      unfolding r_def by code_simp
    have hs: "fetchSpecies pokemon_down (js ''25'') () = (Inr (Some pikachu_species), ())"
      by code_simp
    note T = dataset_omits_failed_rows [where E = "pokemon_down" and st = "initial ()"
        and person = "js ''Ash''" and species = "js ''Pikachu''" and extra = "[]"
        and i = "js ''25''" and ?st1.0 = "snd r" and ?r1.0 = "Inl timeout_error" and ?w1.0 = "()"
        and ?r2.0 = "Inr (Some pikachu_species)" and ?w2.0 = "()" and rows = "[]" and args = "[]" and p = "[]"
        and csv = "[]" and w = "()" and pl = "JsonText []" and pokemonData = None and ?e2.0 = timeout_error and ?e1.0 = timeout_error and speciesData = "Some pikachu_species"]
    note U = T [THEN conjunct2, THEN conjunct1, rule_format, OF h1 h2 hr hp hs]
    note V = U [THEN conjunct1, rule_format, OF refl refl]
    have cons: "console (process_row pokemon_down (initial ()) [js ''Ash'', js ''Pikachu'']) =
        [(ErrorLevel, FailedToFetch (js ''Pikachu'') timeout_error)]"
      unfolding V [THEN conjunct2, THEN conjunct2] by (simp add: c)
    show ?thesis
      by (simp only: V [THEN conjunct1] V [THEN conjunct2, THEN conjunct1] cons
          initial_fields simp_thms)
  qed

  have bd: "row_record both_down (initial ()) [js ''Ash'', js ''Pikachu''] = None \<and>
      datasets (process_row both_down (initial ()) [js ''Ash'', js ''Pikachu'']) = [] \<and>
      console (process_row both_down (initial ()) [js ''Ash'', js ''Pikachu'']) =
        [(ErrorLevel, FailedToFetch (js ''Pikachu'') timeout_error)]"
  proof -
    define r where "r = resolvePokemonIdentifier both_down (trim (js ''Pikachu'')) (initial ())"
    have "fst r = js ''25''" unfolding r_def by code_simp
    then have hr: "resolvePokemonIdentifier both_down (trim (js ''Pikachu'')) (initial ()) =
        (js ''25'', snd r)"
      unfolding r_def by (simp add: prod_eq_iff)
    have c: "console (snd r) = []" unfolding r_def by code_simp
    have hp: "fetchPokemon both_down (js ''25'') (world (snd r)) = (Inl not_found, ())"
      unfolding r_def by code_simp
    have hs: "fetchSpecies both_down (js ''25'') () = (Inl timeout_error, ())"
      by code_simp
    note T = dataset_omits_failed_rows [where E = "both_down" and st = "initial ()"
        and person = "js ''Ash''" and species = "js ''Pikachu''" and extra = "[]"
        and i = "js ''25''" and ?st1.0 = "snd r" and ?r1.0 = "Inl not_found" and ?w1.0 = "()"
        and ?r2.0 = "Inl timeout_error" and ?w2.0 = "()" and rows = "[]" and args = "[]" and p = "[]"
        and csv = "[]" and w = "()" and pl = "JsonText []" and pokemonData = None and ?e2.0 = timeout_error and ?e1.0 = not_found and speciesData = None]
    note U = T [THEN conjunct2, THEN conjunct1, rule_format, OF h1 h2 hr hp hs]
    note V = U [THEN conjunct2, THEN conjunct2, THEN conjunct1, rule_format, OF refl refl]
    have cons: "console (process_row both_down (initial ()) [js ''Ash'', js ''Pikachu'']) =
        [(ErrorLevel, FailedToFetch (js ''Pikachu'') timeout_error)]"
      unfolding V [THEN conjunct2, THEN conjunct2] by (simp add: c both_down_def)
    show ?thesis
      by (simp only: V [THEN conjunct1] V [THEN conjunct2, THEN conjunct1] cons
          initial_fields simp_thms)
  qed

  have e: "\<lparr>name = trim (js ''Ash''),
      pokemon = capitalizeName (tables (stub True)) (trim (js ''Pikachu'')),
      image = select_image (Some pikachu_data),
      description = extractFlavorText (Some pikachu_species)\<rparr> = ash_record"
    by code_simp

  have ok: "datasets (process_row (stub True) (initial ()) [js ''Ash'', js ''Pikachu'']) = [ash_record]"
  proof -
    define r where "r = resolvePokemonIdentifier (stub True) (trim (js ''Pikachu'')) (initial ())"
    have "fst r = js ''25''" unfolding r_def by code_simp
    then have hr: "resolvePokemonIdentifier (stub True) (trim (js ''Pikachu'')) (initial ()) =
        (js ''25'', snd r)"
      unfolding r_def by (simp add: prod_eq_iff)
    have c: "console (snd r) = []" unfolding r_def by code_simp
    have hp: "fetchPokemon (stub True) (js ''25'') (world (snd r)) = (Inr (Some pikachu_data), ())"
      unfolding r_def by code_simp
    have hs: "fetchSpecies (stub True) (js ''25'') () = (Inr (Some pikachu_species), ())"
      by code_simp
    note T = dataset_omits_failed_rows [where E = "(stub True)" and st = "initial ()"
        and person = "js ''Ash''" and species = "js ''Pikachu''" and extra = "[]"
        and i = "js ''25''" and ?st1.0 = "snd r" and ?r1.0 = "Inr (Some pikachu_data)" and ?w1.0 = "()"
        and ?r2.0 = "Inr (Some pikachu_species)" and ?w2.0 = "()" and rows = "[]" and args = "[]" and p = "[]"
        and csv = "[]" and w = "()" and pl = "JsonText []" and pokemonData = "Some pikachu_data" and ?e2.0 = timeout_error and ?e1.0 = timeout_error and speciesData = "Some pikachu_species"]
    note U = T [THEN conjunct2, THEN conjunct1, rule_format, OF h1 h2 hr hp hs]
    note V = U [THEN conjunct2, THEN conjunct2, THEN conjunct2, rule_format, OF refl refl]
    show ?thesis unfolding V [THEN conjunct2] e by simp
  qed

  have h5: "argument [js ''team.csv''] 0 = Some (js ''team.csv'')" by code_simp
  have h6: "readFile (stub True) (path_resolve (stub True) (js ''team.csv'')) = Inr team_csv"
    by (simp add: stub_def)
  have h7: "parseCsv team_csv \<noteq> []" by code_simp
  have h8: "stdout (main (stub True) () [js ''team.csv'']) = Some (JsonText [ash_record])"
    by code_simp
  have rr: "row_records (stub True) (initial ()) (parseCsv team_csv) = [Some ash_record, None]"
    by code_simp
  note T = dataset_omits_failed_rows [where E = "stub True" and st = "initial ()"
      and rows = "parseCsv team_csv" and person = "[]" and species = "[]"
      and i = "[]" and ?st1.0 = "initial ()" and ?r1.0 = "Inl not_found" and ?w1.0 = "()"
      and ?r2.0 = "Inl not_found" and ?w2.0 = "()" and ?e1.0 = not_found and ?e2.0 = not_found
      and pokemonData = None and speciesData = None
      and extra = "[]" and args = "[js ''team.csv'']" and p = "js ''team.csv''"
      and csv = team_csv and w = "()" and pl = "JsonText [ash_record]"]
  from T [THEN conjunct1]
  have t1: "datasets (foldl (process_row (stub True)) (initial ()) (parseCsv team_csv)) =
      [ash_record]"
    by (simp add: rr)
  from T [THEN conjunct2, THEN conjunct2, rule_format, OF h5 h6 h7 disjI1 [OF h8]]
  have t4: "map the (filter (\<lambda>r. r \<noteq> None)
      (row_records (stub True) (initial ()) (parseCsv team_csv))) = [ash_record]"
    by (simp only: payload.inject payload.distinct simp_thms)
  from rr t1 h8 sd pd bd ok show ?thesis by (simp only: simp_thms)
qed

text \<open>
  C4. For a complete row whose two requests are fulfilled, the record is appended with
  this image: the \<^verbatim>\<open>front_default\<close> of \<^verbatim>\<open>sprites.other["official-artwork"]\<close> when every step
  of that path is there, else the \<^verbatim>\<open>front_default\<close> of \<^verbatim>\<open>sprites\<close> when that is there, else
  none. With no image a warning is logged and the record is appended all the same.
\<close>

theorem image_selection:
  fixes pokemonData :: "pokemon_data option"
  defines "selected \<equiv>
     (case pokemonData of
        None \<Rightarrow> None
      | Some record \<Rightarrow>
          (case sprites record of
             None \<Rightarrow> None
           | Some sprite_set \<Rightarrow>
               (case (case other sprite_set of
                        None \<Rightarrow> None
                      | Some others \<Rightarrow>
                          (case official_artwork others of
                             None \<Rightarrow> None
                           | Some art \<Rightarrow> artwork_front_default art)) of
                  Some url \<Rightarrow> Some url
                | None \<Rightarrow> front_default sprite_set)))"
  assumes "person \<noteq> []" and "species \<noteq> []"
    and "resolvePokemonIdentifier E (trim species) st = (i, st1)"
    and "fetchPokemon E i (world st1) = (Inr pokemonData, w1)"
    and "fetchSpecies E i w1 = (Inr speciesData, w2)"
  shows "datasets (process_row E st (person # species # extra)) =
      datasets st @
        [\<lparr>name = trim person,
          pokemon = capitalizeName (tables E) (trim species),
          image = selected,
          description = extractFlavorText speciesData\<rparr>] \<and>
    (selected = None \<longrightarrow>
       console (process_row E st (person # species # extra)) =
         console st1 @ [(WarnLevel, NoArtworkFound species)])"
proof -
  have s: "select_image pokemonData = selected"
    unfolding selected_def by (rule select_image_fields)
  show ?thesis
    unfolding process_row_requests [OF assms(2-6)]
    by (simp add: s)
qed

theorem image_selection_witness:
  "datasets (process_row (stub True) (initial ()) [js ''Ash'', js ''Pikachu'']) = [ash_record] \<and>
   datasets (process_row sprite_only (initial ()) [js ''Ash'', js ''Pikachu'']) =
     [ash_record\<lparr>image := Some (js ''sprite/25.png'')\<rparr>] \<and>
   console (process_row sprite_only (initial ()) [js ''Ash'', js ''Pikachu'']) = [] \<and>
   datasets (process_row no_art (initial ()) [js ''Ash'', js ''Pikachu'']) =
     [ash_record\<lparr>image := None\<rparr>] \<and>
   console (process_row no_art (initial ()) [js ''Ash'', js ''Pikachu'']) =
     [(WarnLevel, NoArtworkFound (js ''Pikachu''))]"
proof -
  have h: "js ''Ash'' \<noteq> []" "js ''Pikachu'' \<noteq> []" by (simp_all add: js_def)
  have t1: "datasets (process_row (stub True) (initial ()) [js ''Ash'', js ''Pikachu'']) =
      [ash_record]"
  proof -
    define r where "r = resolvePokemonIdentifier (stub True) (trim (js ''Pikachu'')) (initial ())"
    have "fst r = js ''25''" unfolding r_def by code_simp
    then have hr: "resolvePokemonIdentifier (stub True) (trim (js ''Pikachu'')) (initial ()) =
        (js ''25'', snd r)"
      unfolding r_def by (simp add: prod_eq_iff)
    have hp: "fetchPokemon (stub True) (js ''25'') (world (snd r)) = (Inr (Some pikachu_data), ())"
      unfolding r_def by code_simp
    have hs: "fetchSpecies (stub True) (js ''25'') () = (Inr (Some pikachu_species), ())"
      by code_simp
    have e: "\<lparr>name = trim (js ''Ash''),
        pokemon = capitalizeName (tables (stub True)) (trim (js ''Pikachu'')),
        image = Some (js ''art/25.png''),
        description = extractFlavorText (Some pikachu_species)\<rparr> = ash_record"
      by code_simp
    from image_selection [OF h hr hp hs, of "[]", THEN conjunct1]
    show ?thesis by (simp add: pikachu_data_def e)
  qed
  have t2: "datasets (process_row sprite_only (initial ()) [js ''Ash'', js ''Pikachu'']) =
      [ash_record\<lparr>image := Some (js ''sprite/25.png'')\<rparr>]"
  proof -
    define r where "r = resolvePokemonIdentifier sprite_only (trim (js ''Pikachu'')) (initial ())"
    have "fst r = js ''25''" unfolding r_def by code_simp
    then have hr: "resolvePokemonIdentifier sprite_only (trim (js ''Pikachu'')) (initial ()) =
        (js ''25'', snd r)"
      unfolding r_def by (simp add: prod_eq_iff)
    have hp: "fetchPokemon sprite_only (js ''25'') (world (snd r)) =
        (Inr (Some \<lparr>sprites = Some \<lparr>other = Some \<lparr>official_artwork = None\<rparr>,
                                      front_default = Some (js ''sprite/25.png'')\<rparr>\<rparr>), ())"
      by (simp add: sprite_only_def)
    have hs: "fetchSpecies sprite_only (js ''25'') () = (Inr (Some pikachu_species), ())"
      by code_simp
    have e: "\<lparr>name = trim (js ''Ash''),
        pokemon = capitalizeName (tables sprite_only) (trim (js ''Pikachu'')),
        image = Some (js ''sprite/25.png''),
        description = extractFlavorText (Some pikachu_species)\<rparr> =
        ash_record\<lparr>image := Some (js ''sprite/25.png'')\<rparr>"
      by code_simp
    from image_selection [OF h hr hp hs, of "[]", THEN conjunct1]
    show ?thesis by (simp add: e)
  qed
  have c2: "console (process_row sprite_only (initial ()) [js ''Ash'', js ''Pikachu'']) = []"
    by code_simp
  have t3: "datasets (process_row no_art (initial ()) [js ''Ash'', js ''Pikachu'']) =
        [ash_record\<lparr>image := None\<rparr>] \<and>
      console (process_row no_art (initial ()) [js ''Ash'', js ''Pikachu'']) =
        [(WarnLevel, NoArtworkFound (js ''Pikachu''))]"
  proof -
    define r where "r = resolvePokemonIdentifier no_art (trim (js ''Pikachu'')) (initial ())"
    have "fst r = js ''25''" unfolding r_def by code_simp
    then have hr: "resolvePokemonIdentifier no_art (trim (js ''Pikachu'')) (initial ()) =
        (js ''25'', snd r)"
      unfolding r_def by (simp add: prod_eq_iff)
    have c: "console (snd r) = []" unfolding r_def by code_simp
    have hp: "fetchPokemon no_art (js ''25'') (world (snd r)) = (Inr (Some \<lparr>sprites = None\<rparr>), ())"
      by (simp add: no_art_def)
    have hs: "fetchSpecies no_art (js ''25'') () = (Inr (Some pikachu_species), ())"
      by code_simp
    have e: "\<lparr>name = trim (js ''Ash''),
        pokemon = capitalizeName (tables no_art) (trim (js ''Pikachu'')),
        image = None,
        description = extractFlavorText (Some pikachu_species)\<rparr> = ash_record\<lparr>image := None\<rparr>"
      by code_simp
    from image_selection [OF h hr hp hs, of "[]"]
    show ?thesis by (simp add: e c)
  qed
  from t1 t2 c2 t3 show ?thesis by (simp only: simp_thms)
qed



text \<open>
  C6. \<^verbatim>\<open>capitalize("mr mime")\<close> is \<^verbatim>\<open>"Mr Mime"\<close> and \<^verbatim>\<open>capitalize("PIKACHU")\<close> is \<^verbatim>\<open>"Pikachu"\<close>.
  For a trimmed, non-empty name the result is its words, each with the first code unit
  in upper case and the rest in lower case, joined by single spaces. A record that the
  loop appends carries the capitalised, trimmed species field of its row.
\<close>

theorem species_name_title_cased:
  "capitalizeName U (js ''mr mime'') = js ''Mr Mime'' \<and>
   capitalizeName U (js ''PIKACHU'') = js ''Pikachu'' \<and>
   (raw \<noteq> [] \<longrightarrow> trim raw = raw \<longrightarrow>
      capitalizeName U raw =
        join_with [space]
          (map (\<lambda>w. toUpperCase U [hd w] @ toLowerCase U (tl w)) (ws_words raw))) \<and>
   (datasets (process_row E st row) = datasets st \<or>
    (\<exists>r. datasets (process_row E st row) = datasets st @ [r] \<and>
         pokemon r = capitalizeName (tables E) (trim (row ! 1))))"
proof (intro conjI impI)
  show "capitalizeName U (js ''mr mime'') = js ''Mr Mime''" by code_simp
  show "capitalizeName U (js ''PIKACHU'') = js ''Pikachu''" by code_simp
  show "capitalizeName U raw =
      join_with [space] (map (\<lambda>w. toUpperCase U [hd w] @ toLowerCase U (tl w)) (ws_words raw))"
    if "raw \<noteq> []" "trim raw = raw"
    using that by (rule capitalize_words)
  show "datasets (process_row E st row) = datasets st \<or>
    (\<exists>r. datasets (process_row E st row) = datasets st @ [r] \<and>
         pokemon r = capitalizeName (tables E) (trim (row ! 1)))"
    by (rule process_row_pokemon)
qed

theorem species_name_title_cased_witness:
  "js ''mR   miME'' \<noteq> [] \<and> trim (js ''mR   miME'') = js ''mR   miME'' \<and>
   ws_words (js ''mR   miME'') = [js ''mR'', js ''miME''] \<and>
   capitalizeName ascii_tables (js ''mR   miME'') = js ''Mr Mime'' \<and>
   datasets (process_row (stub True) (initial ()) [js ''Ash'', js ''pIKACHU'']) =
     [\<lparr>name = js ''Ash'', pokemon = js ''Pikachu'', image = Some (js ''art/25.png''),
       description = js ''Souris electrique.''\<rparr>]"
proof -
  have h: "js ''mR   miME'' \<noteq> []" "trim (js ''mR   miME'') = js ''mR   miME''"
    by code_simp+
  have w: "ws_words (js ''mR   miME'') = [js ''mR'', js ''miME'']" by code_simp
  have j: "join_with [space]
      (map (\<lambda>w. toUpperCase ascii_tables [hd w] @ toLowerCase ascii_tables (tl w))
         [js ''mR'', js ''miME'']) = js ''Mr Mime''"
    by code_simp
  have d: "datasets (process_row (stub True) (initial ()) [js ''Ash'', js ''pIKACHU'']) =
     [\<lparr>name = js ''Ash'', pokemon = js ''Pikachu'', image = Some (js ''art/25.png''),
       description = js ''Souris electrique.''\<rparr>]"
    by code_simp
  from species_name_title_cased [of ascii_tables "js ''mR   miME''"] h
  have "capitalizeName ascii_tables (js ''mR   miME'') =
      join_with [space]
        (map (\<lambda>w. toUpperCase ascii_tables [hd w] @ toLowerCase ascii_tables (tl w))
           (ws_words (js ''mR   miME'')))"
    by blast
  then have "capitalizeName ascii_tables (js ''mR   miME'') = js ''Mr Mime''"
    by (simp only: w j)
  with h w d show ?thesis by (simp only: simp_thms)
qed

text \<open>
  C7. When the first fetch of the alias dataset is rejected, the resolver gets an empty
  table and one line goes to the error stream. That call and every later one return the
  slug of the name (the name itself for an empty slug) and leave the state as it is. The
  run is not ended: with rows to process and standard output as its sink it exits with
  code 0 and writes a dataset.
\<close>

theorem alias_failure_degrades:
  assumes "aliasMapPromise st = None" and "fetchAliasData E (world st) = (Inl e, w)"
  defines "st' \<equiv> (log_to ErrorLevel (AliasTableUnavailable e) (send AliasDataRequest st))
       \<lparr>world := w, aliasMapPromise := Some (Fulfilled [])\<rparr>"
  shows "getPokemonAliasMap E st = ([], st') \<and>
    resolvePokemonIdentifier E raw st =
      (if slugifyName (tables E) raw \<noteq> [] then slugifyName (tables E) raw else raw, st') \<and>
    (\<forall>later. resolvePokemonIdentifier E later st' =
      (if slugifyName (tables E) later \<noteq> [] then slugifyName (tables E) later else later, st')) \<and>
    console st' = console st @ [(ErrorLevel, AliasTableUnavailable e)] \<and>
    (argument args 0 = Some p \<longrightarrow> readFile E (path_resolve E p) = Inr csv \<longrightarrow>
     parseCsv csv \<noteq> [] \<longrightarrow> argument args 1 = None \<longrightarrow>
       exit_code (main E (world st) args) = 0 \<and> stdout (main E (world st) args) \<noteq> None)"
proof (intro conjI impI allI)
  show "getPokemonAliasMap E st = ([], st')"
    by (simp add: getPokemonAliasMap_first [OF assms(1,2)] st'_def)
  show "resolvePokemonIdentifier E raw st =
      (if slugifyName (tables E) raw \<noteq> [] then slugifyName (tables E) raw else raw, st')"
    by (simp add: resolve_first_failed [OF assms(1,2)] st'_def fallback_def)
  have f: "aliasMapPromise st' = Some (Fulfilled [])" by (simp add: st'_def)
  show "resolvePokemonIdentifier E later st' =
      (if slugifyName (tables E) later \<noteq> [] then slugifyName (tables E) later else later, st')"
    for later
    by (simp add: resolve_fulfilled [OF f] fallback_def)
  show "console st' = console st @ [(ErrorLevel, AliasTableUnavailable e)]"
    by (simp add: st'_def)
next
  assume a: "argument args 0 = Some p" "readFile E (path_resolve E p) = Inr csv"
    "parseCsv csv \<noteq> []" and o: "argument args 1 = None"
  show "exit_code (main E (world st) args) = 0"
    unfolding main_loop [OF a] o write_output_stdout by simp
  show "stdout (main E (world st) args) \<noteq> None"
    unfolding main_loop [OF a] o write_output_stdout by simp
qed

theorem alias_failure_degrades_witness:
  "fst (getPokemonAliasMap (stub False) (initial ())) = [] \<and>
   fst (resolvePokemonIdentifier (stub False) (js ''Pikachu'') (initial ())) = js ''pikachu'' \<and>
   console (snd (resolvePokemonIdentifier (stub False) (js ''Pikachu'') (initial ()))) =
     [(ErrorLevel, AliasTableUnavailable not_found)] \<and>
   exit_code (main (stub False) () [js ''team.csv'']) = 0 \<and>
   stdout (main (stub False) () [js ''team.csv'']) = Some (JsonText [ash_record])"
proof -
  have n: "aliasMapPromise (initial () :: unit state) = None" by simp
  have a: "fetchAliasData (stub False) (world (initial ())) = (Inl not_found, ())"
    by (simp add: stub_def)
  have s: "(if slugifyName (tables (stub False)) (js ''Pikachu'') \<noteq> []
      then slugifyName (tables (stub False)) (js ''Pikachu'') else js ''Pikachu'') = js ''pikachu''"
    by code_simp
  have h: "argument [js ''team.csv''] 0 = Some (js ''team.csv'')"
    "parseCsv team_csv \<noteq> []" "argument [js ''team.csv''] 1 = None"
    by code_simp+
  have r: "readFile (stub False) (path_resolve (stub False) (js ''team.csv'')) = Inr team_csv"
    by (simp add: stub_def)
  have o: "stdout (main (stub False) () [js ''team.csv'']) = Some (JsonText [ash_record])"
    by code_simp
  note T = alias_failure_degrades [OF n a, where raw = "js ''Pikachu''"
      and args = "[js ''team.csv'']" and p = "js ''team.csv''" and csv = team_csv]
  from T have t1: "fst (getPokemonAliasMap (stub False) (initial ())) = []" by simp
  from T have t2: "fst (resolvePokemonIdentifier (stub False) (js ''Pikachu'') (initial ())) =
      js ''pikachu''"
    by (simp only: s fst_conv)
  from T have t3: "console (snd (resolvePokemonIdentifier (stub False) (js ''Pikachu'') (initial ()))) =
      [(ErrorLevel, AliasTableUnavailable not_found)]"
    by simp
  from T h r have t4: "exit_code (main (stub False) () [js ''team.csv'']) = 0" by simp
  from t1 t2 t3 t4 o show ?thesis by (simp only: simp_thms)
qed

text \<open>
  C8. From the initial state, after any sequence of resolver calls and network answers,
  in any order, the alias dataset has been requested at most once, and exactly once if
  the resolver was called at all. A call that finds the module variable set, the promise
  pending or settled, sends nothing and leaves the state as it is: the caller awaits the
  stored promise. A call that finds it unset sends the one request and stores the pending
  promise before anything else can run. The same bound holds for the loop of
  \<^verbatim>\<open>main\<close> and for the whole run.
\<close>

theorem alias_dataset_fetched_once:
  "alias_fetches (foldl (step U) (initial w) events) \<le> 1 \<and>
   (alias_fetches (foldl (step U) (initial w) events) = 1) = (ResolverCall \<in> set events) \<and>
   (aliasMapPromise st \<noteq> None \<longrightarrow>
      step U st ResolverCall = st \<and> getPokemonAliasMap_sync st = st) \<and>
   (aliasMapPromise st = None \<longrightarrow>
      aliasMapPromise (step U st ResolverCall) = Some Pending \<and>
      requests (step U st ResolverCall) = requests st @ [AliasDataRequest]) \<and>
   alias_fetches (foldl (process_row E) (initial w) rows) \<le> 1 \<and>
   alias_fetches (final (main E w args)) \<le> 1"
proof (intro conjI impI)
  have f: "fetched_once (foldl (step U) (initial w) events)"
    by (rule fetched_once_events [OF fetched_once_initial])
  then show "alias_fetches (foldl (step U) (initial w) events) \<le> 1" by (rule fetched_once_le)
  show "(alias_fetches (foldl (step U) (initial w) events) = 1) = (ResolverCall \<in> set events)"
    using f promise_after_events [of U "initial w" events] by (auto simp: fetched_once_def)
  show "alias_fetches (foldl (process_row E) (initial w) rows) \<le> 1"
    by (rule fetched_once_le [OF fetched_once_rows [OF fetched_once_initial]])
  show "alias_fetches (final (main E w args)) \<le> 1"
    by (rule fetched_once_le [OF fetched_once_main])
next
  assume "aliasMapPromise st \<noteq> None"
  then show "step U st ResolverCall = st" "getPokemonAliasMap_sync st = st"
    by (simp_all add: step_def getPokemonAliasMap_sync_def)
next
  assume "aliasMapPromise st = None"
  then show "aliasMapPromise (step U st ResolverCall) = Some Pending"
    "requests (step U st ResolverCall) = requests st @ [AliasDataRequest]"
    by (simp_all add: step_def getPokemonAliasMap_sync_def)
qed

theorem alias_dataset_fetched_once_witness:
  "requests (foldl (step ascii_tables) (initial ())
      [ResolverCall, ResolverCall, AliasAnswer (Inr [pikachu_entry]), ResolverCall]) =
     [AliasDataRequest] \<and>
   aliasMapPromise (foldl (step ascii_tables) (initial ()) [ResolverCall, ResolverCall]) =
     Some Pending \<and>
   step ascii_tables (foldl (step ascii_tables) (initial ()) [ResolverCall]) ResolverCall =
     foldl (step ascii_tables) (initial ()) [ResolverCall] \<and>
   alias_fetches (final (main (stub True) () [js ''team.csv''])) = 1"
proof -
  let ?evs = "[ResolverCall, ResolverCall, AliasAnswer (Inr [pikachu_entry]), ResolverCall]"
  let ?s1 = "foldl (step ascii_tables) (initial () :: unit state) [ResolverCall]"
  have r: "requests (foldl (step ascii_tables) (initial ()) ?evs) = [AliasDataRequest]"
    by code_simp
  have p: "aliasMapPromise (foldl (step ascii_tables) (initial ()) [ResolverCall, ResolverCall]) =
      Some Pending"
    by code_simp
  have n: "aliasMapPromise ?s1 \<noteq> None" by code_simp
  have m: "alias_fetches (final (main (stub True) () [js ''team.csv''])) = 1" by code_simp
  from alias_dataset_fetched_once [where st = ?s1 and U = ascii_tables and w = "()"
      and events = "[]" and E = "stub True" and rows = "[]" and args = "[]"]
  have "aliasMapPromise ?s1 \<noteq> None \<longrightarrow>
      step ascii_tables ?s1 ResolverCall = ?s1 \<and> getPokemonAliasMap_sync ?s1 = ?s1"
    by (elim conjE)
  with n have "step ascii_tables ?s1 ResolverCall = ?s1" by (elim impE conjE)
  with r p m show ?thesis by (simp only: simp_thms)
qed

text \<open>
  C9. Normalising a name twice gives what normalising it once gives, for every string
  and whatever the Unicode tables hold. So the key that \<^verbatim>\<open>buildPokemonAliasMap\<close> derives
  from \<^verbatim>\<open>slugifyName(english)\<close> is the key it derives from \<^verbatim>\<open>english\<close>.
\<close>

theorem normalizeName_idempotent:
  "normalizeName U (normalizeName U s) = normalizeName U s \<and>
   normalizeName U (slugifyName U s) = normalizeName U s"
  unfolding slugifyName_def
  by (simp add: canonical_fixed [OF normalizeName_canonical])



end
